theory Spec2Isabelle
  imports Main "HOL-Library.Product_Lexorder" "HOL-Library.Sublist"
begin

section \<open>Dates, times and time zones\<close>

text \<open>
  The scheduling code works on Python \<open>datetime\<close> values. A date is its proleptic
  Gregorian ordinal (\<open>date.toordinal()\<close>), so \<open>d + timedelta(days=n)\<close> is
  addition on ordinals; Python raises \<open>OverflowError\<close> when the result leaves
  \<open>1 .. MAXORDINAL\<close> (the years 1 to 9999). A \<open>datetime\<close> carries the
  wall-clock fields, \<open>fold\<close> and an optional \<open>tzinfo\<close>.
\<close>

datatype py_error =
    UnknownTimeZoneError
  | OverflowError
  | MultipleResultsFound
  | DataError

datatype tzinfo = ZoneInfo string | PytzZone string

record datetime =
  dt_date :: int
  dt_hour :: int
  dt_minute :: int
  dt_second :: int
  dt_microsecond :: int
  dt_fold :: nat
  dt_tzinfo :: "tzinfo option"

definition MAXORDINAL :: int where
  "MAXORDINAL = 3652059"

definition US_PER_SECOND :: int where
  "US_PER_SECOND = 1000000"

definition US_PER_DAY :: int where
  "US_PER_DAY = 86400 * 1000000"

text \<open>The fields of a \<open>datetime\<close> object are always in range.\<close>

definition valid_time :: "datetime \<Rightarrow> bool" where
  "valid_time d \<longleftrightarrow>
     0 \<le> dt_hour d \<and> dt_hour d < 24 \<and> 0 \<le> dt_minute d \<and> dt_minute d < 60 \<and>
     0 \<le> dt_second d \<and> dt_second d < 60 \<and>
     0 \<le> dt_microsecond d \<and> dt_microsecond d < 1000000"

definition valid_datetime :: "datetime \<Rightarrow> bool" where
  "valid_datetime d \<longleftrightarrow> 0 < dt_date d \<and> dt_date d \<le> MAXORDINAL \<and> valid_time d"

text \<open>Microseconds of the wall clock since midnight, and since ordinal 0.\<close>

definition time_us :: "datetime \<Rightarrow> int" where
  "time_us d =
     (dt_hour d * 3600 + dt_minute d * 60 + dt_second d) * US_PER_SECOND + dt_microsecond d"

definition wall_us :: "datetime \<Rightarrow> int" where
  "wall_us d = dt_date d * US_PER_DAY + time_us d"

text \<open>\<open>date + timedelta(days=n)\<close>.\<close>

definition date_add_days :: "int \<Rightarrow> int \<Rightarrow> py_error + int" where
  "date_add_days d n =
     (let o' = d + n in if 0 < o' \<and> o' \<le> MAXORDINAL then Inr o' else Inl OverflowError)"

text \<open>
  \<open>dt + timedelta(microseconds=us)\<close>: the fields are summed into one duration, the
  delta is added, and the result is split again with \<open>divmod\<close>; \<open>tzinfo\<close> is kept and
  \<open>fold\<close> is reset.
\<close>

definition datetime_add_us :: "datetime \<Rightarrow> int \<Rightarrow> py_error + datetime" where
  "datetime_add_us d us =
     (let total = wall_us d + us;
          days = total div US_PER_DAY;
          rest = total mod US_PER_DAY;
          seconds = rest div US_PER_SECOND;
          micro = rest mod US_PER_SECOND;
          hour = seconds div 3600;
          rem = seconds mod 3600
      in if 0 < days \<and> days \<le> MAXORDINAL
         then Inr \<lparr>dt_date = days, dt_hour = hour, dt_minute = rem div 60,
                   dt_second = rem mod 60, dt_microsecond = micro, dt_fold = 0,
                   dt_tzinfo = dt_tzinfo d\<rparr>
         else Inl OverflowError)"

definition timedelta_minutes :: "int \<Rightarrow> int" where
  "timedelta_minutes m = m * 60 * US_PER_SECOND"

definition timedelta_days :: "int \<Rightarrow> int" where
  "timedelta_days n = n * US_PER_DAY"

text \<open>\<open>datetime.combine(d, time(h, m))\<close>: a naive datetime.\<close>

definition datetime_combine :: "int \<Rightarrow> int \<Rightarrow> int \<Rightarrow> datetime" where
  "datetime_combine d h m =
     \<lparr>dt_date = d, dt_hour = h, dt_minute = m, dt_second = 0, dt_microsecond = 0,
      dt_fold = 0, dt_tzinfo = None\<rparr>"

text \<open>
  Comparison of two datetimes that share their \<open>tzinfo\<close> object: Python compares the
  wall-clock fields lexicographically and ignores \<open>tzinfo\<close> and \<open>fold\<close>.
\<close>

definition datetime_key :: "datetime \<Rightarrow> int \<times> int \<times> int \<times> int \<times> int" where
  "datetime_key d = (dt_date d, dt_hour d, dt_minute d, dt_second d, dt_microsecond d)"

definition datetime_le :: "datetime \<Rightarrow> datetime \<Rightarrow> bool" where
  "datetime_le a b \<longleftrightarrow> datetime_key a \<le> datetime_key b"

text \<open>
  The time-zone libraries are outside the repository. They enter as a parameter:
  which names \<open>ZoneInfo(name)\<close> and \<open>pytz.timezone(name)\<close> accept, and what
  \<open>dt.astimezone(tz)\<close> returns for an aware \<open>dt\<close>.
\<close>

record tz_env =
  zoneinfo_known :: "string \<Rightarrow> bool"
  pytz_known :: "string \<Rightarrow> bool"
  astimezone :: "datetime \<Rightarrow> tzinfo \<Rightarrow> py_error + datetime"

text \<open>
  \<open>try: tz = ZoneInfo(name) except Exception: tz = pytz.timezone(name)\<close>; the second
  lookup is not guarded, so an unknown name raises.
\<close>

definition get_tz :: "'a tz_env_scheme \<Rightarrow> string \<Rightarrow> py_error + tzinfo" where
  "get_tz env timezone_name =
     (if zoneinfo_known env timezone_name then Inr (ZoneInfo timezone_name)
      else if pytz_known env timezone_name then Inr (PytzZone timezone_name)
      else Inl UnknownTimeZoneError)"

text \<open>
  \<open>replace(tzinfo=tz)\<close> for a \<open>ZoneInfo\<close> and \<open>tz.localize(dt)\<close> for a pytz zone
  both keep the wall clock of a naive datetime and attach the zone.
\<close>

definition attach_tz :: "tzinfo \<Rightarrow> datetime \<Rightarrow> datetime" where
  "attach_tz tz d = (case tz of ZoneInfo n \<Rightarrow> d\<lparr>dt_tzinfo := Some tz\<rparr>
                              | PytzZone n \<Rightarrow> d\<lparr>dt_tzinfo := Some tz\<rparr>)"

text \<open>The block "localize if naive, else convert" that opens both calculators.\<close>

definition localize :: "'a tz_env_scheme \<Rightarrow> tzinfo \<Rightarrow> datetime \<Rightarrow> py_error + datetime" where
  "localize env tz d =
     (if dt_tzinfo d = None then Inr (attach_tz tz d) else astimezone env d tz)"

section \<open>The interval calculators (app/utils/ebbinghaus.py)\<close>

text \<open>
  The five lines repeated in every long-horizon branch:
  \<open>next_date = d.date() + timedelta(days=n)\<close>, combined with \<open>time(7, 0)\<close> and
  given the zone.
\<close>

definition morning_after :: "tzinfo \<Rightarrow> datetime \<Rightarrow> int \<Rightarrow> py_error + datetime" where
  "morning_after tz d n =
     (case date_add_days (dt_date d) n of
        Inl e \<Rightarrow> Inl e
      | Inr next_date \<Rightarrow> Inr (attach_tz tz (datetime_combine next_date 7 0)))"

definition calculate_next_repetition ::
  "'a tz_env_scheme \<Rightarrow> datetime \<Rightarrow> int \<Rightarrow> string \<Rightarrow> datetime option \<Rightarrow> py_error + (datetime \<times> int)" where
  "calculate_next_repetition env created_at current_stage timezone_name last_success_at =
     (case get_tz env timezone_name of
        Inl e \<Rightarrow> Inl e
      | Inr tz \<Rightarrow>
     (case localize env tz created_at of
        Inl e \<Rightarrow> Inl e
      | Inr created \<Rightarrow>
          if current_stage = 0 then
            (case datetime_add_us created (timedelta_minutes 20) of
               Inl e \<Rightarrow> Inl e
             | Inr next_due_at \<Rightarrow> Inr (next_due_at, 1))
          else if current_stage = 1 then
            (let next_due_at = created\<lparr>dt_hour := 20, dt_minute := 0, dt_second := 0,
                                       dt_microsecond := 0\<rparr>
             in if datetime_le next_due_at created
                then (case datetime_add_us next_due_at (timedelta_days 1) of
                        Inl e \<Rightarrow> Inl e
                      | Inr rolled \<Rightarrow> Inr (rolled, 2))
                else Inr (next_due_at, 2))
          else if current_stage = 2 then
            (case morning_after tz created 1 of Inl e \<Rightarrow> Inl e | Inr due \<Rightarrow> Inr (due, 3))
          else if current_stage = 3 then
            (case morning_after tz created 3 of Inl e \<Rightarrow> Inl e | Inr due \<Rightarrow> Inr (due, 4))
          else if current_stage = 4 then
            (case morning_after tz created 7 of Inl e \<Rightarrow> Inl e | Inr due \<Rightarrow> Inr (due, 5))
          else if current_stage = 5 then
            (case morning_after tz created 14 of Inl e \<Rightarrow> Inl e | Inr due \<Rightarrow> Inr (due, 6))
          else if current_stage = 6 then
            (case morning_after tz created 30 of Inl e \<Rightarrow> Inl e | Inr due \<Rightarrow> Inr (due, 7))
          else
            (case (case last_success_at of
                     None \<Rightarrow> Inr created
                   | Some ls \<Rightarrow> localize env tz ls) of
               Inl e \<Rightarrow> Inl e
             | Inr base_date \<Rightarrow>
                 (case morning_after tz base_date 30 of
                    Inl e \<Rightarrow> Inl e
                  | Inr due \<Rightarrow> Inr (due, 8)))))"

definition calculate_failed_repetition ::
  "'a tz_env_scheme \<Rightarrow> datetime \<Rightarrow> int \<Rightarrow> string \<Rightarrow> py_error + (datetime \<times> int)" where
  "calculate_failed_repetition env failed_at current_stage timezone_name =
     (case get_tz env timezone_name of
        Inl e \<Rightarrow> Inl e
      | Inr tz \<Rightarrow>
     (case localize env tz failed_at of
        Inl e \<Rightarrow> Inl e
      | Inr failed \<Rightarrow>
          (let new_stage = max 0 (current_stage - 1)
           in case morning_after tz failed 1 of
                Inl e \<Rightarrow> Inl e
              | Inr next_due_at \<Rightarrow> Inr (next_due_at, new_stage))))"

subsection \<open>The stage table\<close>

definition stage_names :: "(int \<times> string) list" where
  "stage_names =
     [(0, ''immediate''), (1, ''short_term''), (2, ''evening''), (3, ''day_1''),
      (4, ''day_3''), (5, ''day_7''), (6, ''day_14''), (7, ''day_30''), (8, ''monthly'')]"

definition get_stage_name :: "int \<Rightarrow> string" where
  "get_stage_name stage =
     (if stage \<ge> 8 then ''monthly''
      else case map_of stage_names stage of None \<Rightarrow> ''unknown'' | Some name \<Rightarrow> name)"

text \<open>
  The descriptions are Russian text; a Python \<open>str\<close> is a sequence of code points, so
  they are lists of code points here.
\<close>

type_synonym ustring = "nat list"

definition stage_descriptions :: "(int \<times> ustring) list" where
  "stage_descriptions =
     [(0, [1057, 1088, 1072, 1079, 1091]),
      (1, [1063, 1077, 1088, 1077, 1079, 32, 50, 48, 32, 1084, 1080, 1085, 1091, 1090]),
      (2, [1042, 1077, 1095, 1077, 1088, 1086, 1084, 32, 1074, 32, 50, 48, 58, 48, 48]),
      (3, [1047, 1072, 1074, 1090, 1088, 1072, 32, 1074, 32, 48, 55, 58, 48, 48]),
      (4, [1063, 1077, 1088, 1077, 1079, 32, 51, 32, 1076, 1085, 1103, 32, 1074, 32,
           48, 55, 58, 48, 48]),
      (5, [1063, 1077, 1088, 1077, 1079, 32, 55, 32, 1076, 1085, 1077, 1081, 32, 1074,
           32, 48, 55, 58, 48, 48]),
      (6, [1063, 1077, 1088, 1077, 1079, 32, 49, 52, 32, 1076, 1085, 1077, 1081, 32,
           1074, 32, 48, 55, 58, 48, 48]),
      (7, [1063, 1077, 1088, 1077, 1079, 32, 51, 48, 32, 1076, 1085, 1077, 1081, 32,
           1074, 32, 48, 55, 58, 48, 48]),
      (8, [1056, 1072, 1079, 32, 1074, 32, 1084, 1077, 1089, 1103, 1094, 32, 1074, 32,
           48, 55, 58, 48, 48])]"

definition monthly_description :: ustring where
  "monthly_description =
     [1056, 1072, 1079, 32, 1074, 32, 1084, 1077, 1089, 1103, 1094, 32, 1074, 32,
      48, 55, 58, 48, 48]"

definition unknown_description :: ustring where
  "unknown_description =
     [1053, 1077, 1080, 1079, 1074, 1077, 1089, 1090, 1085, 1072, 1103, 32,
      1089, 1090, 1072, 1076, 1080, 1103]"

definition get_stage_description :: "int \<Rightarrow> ustring" where
  "get_stage_description stage =
     (if stage \<ge> 8 then monthly_description
      else case map_of stage_descriptions stage of
             None \<Rightarrow> unknown_description
           | Some text \<Rightarrow> text)"

section \<open>The store (app/database/models.py)\<close>

record user =
  us_user_id :: int
  us_timezone :: string
  us_is_active :: bool

record study_material =
  sm_id :: int
  sm_user_id :: int
  sm_content :: ustring
  sm_created_at :: datetime
  sm_is_active :: bool
  sm_current_stage :: int
  sm_last_success_at :: "datetime option"

record repetition_schedule =
  rs_id :: int
  rs_material_id :: int
  rs_user_id :: int
  rs_scheduled_date :: int
  rs_repetition_type :: string
  rs_interval_days :: int
  rs_current_stage :: int
  rs_is_completed :: bool
  rs_completed_at :: "datetime option"
  rs_created_at :: datetime
  rs_scheduled_datetime :: "datetime option"

record repetition_result =
  rr_id :: int
  rr_schedule_id :: int
  rr_user_id :: int
  rr_material_id :: int
  rr_was_successful :: bool
  rr_completed_at :: datetime

record user_statistics =
  st_id :: int
  st_user_id :: int
  st_date :: int
  st_successful_repetitions :: int
  st_failed_repetitions :: int
  st_total_materials_added :: int
  st_updated_at :: datetime

text \<open>
  A table is the list of its rows in storage order; the integer primary keys come from
  a sequence per table.
\<close>

record database =
  users :: "user list"
  study_materials :: "study_material list"
  repetition_schedules :: "repetition_schedule list"
  repetition_results :: "repetition_result list"
  statistics :: "user_statistics list"
  next_schedule_id :: int
  next_result_id :: int
  next_statistics_id :: int

text \<open>
  The services share one \<open>AsyncSession\<close>. \<open>db\<close> is what the session reads: the
  persisted rows with the pending changes of the open transaction applied (the session
  autoflushes before every query). \<open>committed\<close> lists the snapshots made durable by
  each \<open>commit()\<close>, oldest first; an exception leaves the pending changes uncommitted.
\<close>

record session =
  db :: database
  committed :: "database list"

text \<open>
  The column \<open>scheduled_datetime\<close> is a \<open>DateTime\<close> without time zone
  (models.py) and the engine is PostgreSQL through asyncpg (connection.py): the driver
  refuses a datetime that carries a \<open>tzinfo\<close> for such a column, and the flush that
  sends the \<open>INSERT\<close> raises. The other datetime columns only ever receive
  \<open>datetime.utcnow()\<close>, which is naive.
\<close>

definition storable :: "repetition_schedule \<Rightarrow> bool" where
  "storable r \<longleftrightarrow>
     (case rs_scheduled_datetime r of None \<Rightarrow> True | Some d \<Rightarrow> dt_tzinfo d = None)"

definition commit :: "session \<Rightarrow> session" where
  "commit s = s\<lparr>committed := committed s @ [db s]\<rparr>"

text \<open>
  The clock and the settings are read from the environment. All readings of
  \<open>datetime.utcnow()\<close> inside one service call are the one instant \<open>utcnow\<close>, and
  \<open>date.today()\<close> is \<open>today\<close>.
\<close>

record service_env = tz_env +
  utcnow :: datetime
  today :: int
  default_timezone :: string

text \<open>\<open>Result.scalar_one_or_none()\<close>.\<close>

fun scalar_one_or_none :: "'a list \<Rightarrow> py_error + 'a option" where
  "scalar_one_or_none [] = Inr None"
| "scalar_one_or_none [x] = Inr (Some x)"
| "scalar_one_or_none (x # y # zs) = Inl MultipleResultsFound"

text \<open>Attribute assignments on a loaded row reach the row with its primary key.\<close>

definition update_schedule ::
  "int \<Rightarrow> (repetition_schedule \<Rightarrow> repetition_schedule) \<Rightarrow> database \<Rightarrow> database" where
  "update_schedule rid f d =
     d\<lparr>repetition_schedules :=
          map (\<lambda>r. if rs_id r = rid then f r else r) (repetition_schedules d)\<rparr>"

definition update_material ::
  "int \<Rightarrow> (study_material \<Rightarrow> study_material) \<Rightarrow> database \<Rightarrow> database" where
  "update_material mid f d =
     d\<lparr>study_materials :=
          map (\<lambda>m. if sm_id m = mid then f m else m) (study_materials d)\<rparr>"

definition update_statistics ::
  "int \<Rightarrow> (user_statistics \<Rightarrow> user_statistics) \<Rightarrow> database \<Rightarrow> database" where
  "update_statistics sid f d =
     d\<lparr>statistics := map (\<lambda>r. if st_id r = sid then f r else r) (statistics d)\<rparr>"

text \<open>\<open>session.add(row)\<close>: the row is inserted with the next key of its sequence.\<close>

definition add_schedule :: "repetition_schedule \<Rightarrow> database \<Rightarrow> database" where
  "add_schedule r d =
     d\<lparr>repetition_schedules := repetition_schedules d @ [r\<lparr>rs_id := next_schedule_id d\<rparr>],
       next_schedule_id := next_schedule_id d + 1\<rparr>"

definition add_result :: "repetition_result \<Rightarrow> database \<Rightarrow> database" where
  "add_result r d =
     d\<lparr>repetition_results := repetition_results d @ [r\<lparr>rr_id := next_result_id d\<rparr>],
       next_result_id := next_result_id d + 1\<rparr>"

definition add_statistics :: "user_statistics \<Rightarrow> database \<Rightarrow> database" where
  "add_statistics r d =
     d\<lparr>statistics := statistics d @ [r\<lparr>st_id := next_statistics_id d\<rparr>],
       next_statistics_id := next_statistics_id d + 1\<rparr>"

section \<open>MaterialService (app/services/material_service.py)\<close>

definition get_material :: "session \<Rightarrow> int \<Rightarrow> py_error + study_material option" where
  "get_material s material_id =
     scalar_one_or_none (filter (\<lambda>m. sm_id m = material_id) (study_materials (db s)))"

definition update_user_statistics ::
  "'a service_env_scheme \<Rightarrow> session \<Rightarrow> int \<Rightarrow> int \<Rightarrow> int \<Rightarrow> int \<Rightarrow> (py_error + unit) \<times> session" where
  "update_user_statistics env s user_id materials_added successful_repetitions failed_repetitions =
     (case scalar_one_or_none
             (filter (\<lambda>r. st_user_id r = user_id \<and> st_date r = today env) (statistics (db s))) of
        Inl e \<Rightarrow> (Inl e, s)
      | Inr None \<Rightarrow>
          (Inr (),
           commit (s\<lparr>db := add_statistics
                \<lparr>st_id = 0, st_user_id = user_id, st_date = today env,
                 st_successful_repetitions = successful_repetitions,
                 st_failed_repetitions = failed_repetitions,
                 st_total_materials_added = materials_added,
                 st_updated_at = utcnow env\<rparr> (db s)\<rparr>))
      | Inr (Some stats) \<Rightarrow>
          (Inr (),
           commit (s\<lparr>db := update_statistics (st_id stats)
                (\<lambda>r. r\<lparr>st_total_materials_added := st_total_materials_added r + materials_added,
                       st_successful_repetitions :=
                         st_successful_repetitions r + successful_repetitions,
                       st_failed_repetitions := st_failed_repetitions r + failed_repetitions,
                       st_updated_at := utcnow env\<rparr>) (db s)\<rparr>)))"

section \<open>ScheduleService (app/services/schedule_service.py)\<close>

definition intraday_types :: "string list" where
  "intraday_types = [''immediate'', ''short_term'', ''evening'']"

definition long_term_types :: "string list" where
  "long_term_types = [''day_1'', ''day_3'', ''day_7'', ''day_14'', ''day_30'', ''monthly'']"

definition get_user :: "session \<Rightarrow> int \<Rightarrow> py_error + user option" where
  "get_user s user_id =
     scalar_one_or_none (filter (\<lambda>u. us_user_id u = user_id) (users (db s)))"

text \<open>\<open>user.timezone if user else settings.default_timezone\<close>.\<close>

definition timezone_of :: "'a service_env_scheme \<Rightarrow> user option \<Rightarrow> string" where
  "timezone_of env u = (case u of Some usr \<Rightarrow> us_timezone usr | None \<Rightarrow> default_timezone env)"

definition delete_incomplete_repetitions :: "session \<Rightarrow> int \<Rightarrow> int \<Rightarrow> session" where
  "delete_incomplete_repetitions s user_id material_id =
     s\<lparr>db := (db s)\<lparr>repetition_schedules :=
          filter (\<lambda>r. \<not> (rs_user_id r = user_id \<and> rs_material_id r = material_id \<and>
                            \<not> rs_is_completed r))
                 (repetition_schedules (db s))\<rparr>\<rparr>"

definition new_schedule_row ::
  "'a service_env_scheme \<Rightarrow> int \<Rightarrow> int \<Rightarrow> int \<Rightarrow> string \<Rightarrow> int \<Rightarrow> datetime \<Rightarrow> repetition_schedule" where
  "new_schedule_row env material_id user_id scheduled_date repetition_type current_stage
       scheduled_datetime =
     \<lparr>rs_id = 0, rs_material_id = material_id, rs_user_id = user_id,
      rs_scheduled_date = scheduled_date, rs_repetition_type = repetition_type,
      rs_interval_days = 0, rs_current_stage = current_stage, rs_is_completed = False,
      rs_completed_at = None, rs_created_at = utcnow env,
      rs_scheduled_datetime = Some scheduled_datetime\<rparr>"

text \<open>The row as it is after the flush, with its key.\<close>

definition flushed :: "database \<Rightarrow> repetition_schedule \<Rightarrow> repetition_schedule" where
  "flushed d r = r\<lparr>rs_id := next_schedule_id d\<rparr>"

text \<open>
  The three rows are added to the session and sent to the database by the flush of
  \<open>commit()\<close>; a row that is not \<open>storable\<close> makes that flush raise, and nothing is
  committed.
\<close>

definition create_initial_repetitions ::
  "'a service_env_scheme \<Rightarrow> session \<Rightarrow> int \<Rightarrow> int \<Rightarrow> datetime \<Rightarrow> string option \<Rightarrow>
   (py_error + repetition_schedule list) \<times> session" where
  "create_initial_repetitions env s material_id user_id material_created_at user_timezone =
     (let timezone = (case user_timezone of
                        None \<Rightarrow> default_timezone env
                      | Some t \<Rightarrow> if t = [] then default_timezone env else t);
          s1 = delete_incomplete_repetitions s user_id material_id
      in case calculate_next_repetition env material_created_at 0 timezone None of
           Inl e \<Rightarrow> (Inl e, s1)
         | Inr (next_due_at_0, next_stage_0) \<Rightarrow>
             (let immediate = new_schedule_row env material_id user_id
                                (dt_date material_created_at) ''immediate'' 0
                                material_created_at;
                  short_term = new_schedule_row env material_id user_id
                                 (dt_date next_due_at_0) ''short_term'' 1 next_due_at_0
              in case calculate_next_repetition env material_created_at 1 timezone None of
                   Inl e \<Rightarrow> (Inl e, s1)
                 | Inr (next_due_at_1, next_stage_1) \<Rightarrow>
                     (let evening = new_schedule_row env material_id user_id
                                      (dt_date next_due_at_1) ''evening'' 2 next_due_at_1;
                          d1 = db s1;
                          d2 = add_schedule immediate d1;
                          d3 = add_schedule short_term d2;
                          d4 = add_schedule evening d3
                      in if storable immediate \<and> storable short_term \<and> storable evening
                         then (Inr [flushed d1 immediate, flushed d2 short_term,
                                    flushed d3 evening], commit (s1\<lparr>db := d4\<rparr>))
                         else (Inl DataError, s1\<lparr>db := d4\<rparr>))))"

text \<open>
  The duplicate guard of \<open>get_due_repetitions\<close>: a loop over the ordered rows with the
  list \<open>unique_repetitions\<close> and the set \<open>seen_materials\<close>.
\<close>

fun unique_loop ::
  "repetition_schedule list \<Rightarrow> repetition_schedule list \<Rightarrow> int set \<Rightarrow> repetition_schedule list" where
  "unique_loop [] unique_repetitions seen_materials = unique_repetitions"
| "unique_loop (rep # rest) unique_repetitions seen_materials =
     (if rs_material_id rep \<notin> seen_materials
      then unique_loop rest (unique_repetitions @ [rep])
             (insert (rs_material_id rep) seen_materials)
      else unique_loop rest unique_repetitions seen_materials)"

text \<open>The \<open>WHERE\<close> clause of the due query.\<close>

definition is_due :: "int \<Rightarrow> repetition_schedule \<Rightarrow> bool" where
  "is_due target_date r \<longleftrightarrow>
     \<not> rs_is_completed r \<and>
     ((rs_repetition_type r \<in> set intraday_types \<and> rs_scheduled_date r = target_date) \<or>
      (rs_repetition_type r \<in> set long_term_types \<and> rs_scheduled_date r \<le> target_date))"

text \<open>
  \<open>ORDER BY scheduled_date, current_stage, created_at\<close>. Rows that agree on all three
  columns keep their storage order.
\<close>

definition due_order :: "repetition_schedule \<Rightarrow> int \<times> int \<times> (int \<times> int \<times> int \<times> int \<times> int)" where
  "due_order r = (rs_scheduled_date r, rs_current_stage r, datetime_key (rs_created_at r))"

definition get_due_repetitions ::
  "'a service_env_scheme \<Rightarrow> session \<Rightarrow> int option \<Rightarrow> int option \<Rightarrow> repetition_schedule list" where
  "get_due_repetitions env s user_id target_date =
     (let target = (case target_date of None \<Rightarrow> today env | Some d \<Rightarrow> d);
          selected = filter (is_due target) (repetition_schedules (db s));
          selected' = (case user_id of
                         None \<Rightarrow> selected
                       | Some u \<Rightarrow> if u \<noteq> 0 then filter (\<lambda>r. rs_user_id r = u) selected
                                   else selected);
          all_repetitions = sort_key due_order selected'
      in unique_loop all_repetitions [] {})"

text \<open>
  In \<open>mark_failed\<close> the new row is flushed by the autoflush of the first query of
  \<open>_update_user_statistics\<close>; in \<open>_create_next_repetition_on_success\<close> by the
  flush of \<open>commit()\<close>.
\<close>

definition mark_failed ::
  "'a service_env_scheme \<Rightarrow> session \<Rightarrow> int \<Rightarrow> int \<Rightarrow> datetime option \<Rightarrow>
   (py_error + bool) \<times> session" where
  "mark_failed env s user_id material_id failed_at_opt =
     (let failed_at = (case failed_at_opt of None \<Rightarrow> utcnow env | Some t \<Rightarrow> t)
      in case get_material s material_id of
           Inl e \<Rightarrow> (Inl e, s)
         | Inr None \<Rightarrow> (Inr False, s)
         | Inr (Some material) \<Rightarrow>
       (case get_user s user_id of
           Inl e \<Rightarrow> (Inl e, s)
         | Inr usr \<Rightarrow>
       (case calculate_failed_repetition env failed_at (sm_current_stage material)
               (timezone_of env usr) of
           Inl e \<Rightarrow> (Inl e, s)
         | Inr (next_due_at, new_stage) \<Rightarrow>
             (let s1 = delete_incomplete_repetitions s user_id material_id;
                  new_schedule = new_schedule_row env material_id user_id (dt_date next_due_at)
                                   (get_stage_name new_stage) new_stage next_due_at;
                  d2 = add_schedule new_schedule (db s1);
                  d3 = update_material (sm_id material)
                         (\<lambda>m. m\<lparr>sm_current_stage := new_stage\<rparr>) d2
              in if \<not> storable new_schedule then (Inl DataError, s1\<lparr>db := d3\<rparr>)
                 else case update_user_statistics env (s1\<lparr>db := d3\<rparr>) user_id 0 0 1 of
                        (Inl e, s4) \<Rightarrow> (Inl e, s4)
                      | (Inr u, s4) \<Rightarrow> (Inr True, commit s4)))))"

definition create_next_repetition_on_success ::
  "'a service_env_scheme \<Rightarrow> session \<Rightarrow> repetition_schedule \<Rightarrow>
   (py_error + repetition_schedule option) \<times> session" where
  "create_next_repetition_on_success env s current_schedule =
     (case get_material s (rs_material_id current_schedule) of
           Inl e \<Rightarrow> (Inl e, s)
         | Inr None \<Rightarrow> (Inr None, s)
         | Inr (Some material) \<Rightarrow>
       (case get_user s (rs_user_id current_schedule) of
           Inl e \<Rightarrow> (Inl e, s)
         | Inr usr \<Rightarrow>
           (let new_stage = rs_current_stage current_schedule + 1;
                last_success_at = utcnow env;
                s1 = s\<lparr>db := update_material (sm_id material)
                        (\<lambda>m. m\<lparr>sm_last_success_at := Some last_success_at,
                               sm_current_stage := new_stage\<rparr>) (db s)\<rparr>
            in case calculate_next_repetition env (sm_created_at material)
                      (rs_current_stage current_schedule) (timezone_of env usr)
                      (Some last_success_at) of
                 Inl e \<Rightarrow> (Inl e, s1)
               | Inr (next_due_at, next_stage) \<Rightarrow>
                   (let next_type = get_stage_name next_stage;
                        s2 = delete_incomplete_repetitions s1 (rs_user_id current_schedule)
                               (rs_material_id current_schedule);
                        next_schedule = new_schedule_row env (rs_material_id current_schedule)
                                          (rs_user_id current_schedule) (dt_date next_due_at)
                                          next_type next_stage next_due_at;
                        s3 = s2\<lparr>db := add_schedule next_schedule (db s2)\<rparr>
                    in if storable next_schedule
                       then (Inr (Some (flushed (db s2) next_schedule)), commit s3)
                       else (Inl DataError, s3)))))"

definition create_next_repetition_on_failure ::
  "'a service_env_scheme \<Rightarrow> session \<Rightarrow> repetition_schedule \<Rightarrow> (py_error + bool) \<times> session" where
  "create_next_repetition_on_failure env s current_schedule =
     mark_failed env s (rs_user_id current_schedule) (rs_material_id current_schedule)
       (rs_completed_at current_schedule)"

definition complete_repetition ::
  "'a service_env_scheme \<Rightarrow> session \<Rightarrow> int \<Rightarrow> int \<Rightarrow> bool \<Rightarrow> (py_error + bool) \<times> session" where
  "complete_repetition env s schedule_id user_id was_successful =
     (case scalar_one_or_none
             (filter (\<lambda>r. rs_id r = schedule_id \<and> rs_user_id r = user_id \<and>
                           \<not> rs_is_completed r)
                     (repetition_schedules (db s))) of
        Inl e \<Rightarrow> (Inl e, s)
      | Inr None \<Rightarrow> (Inr False, s)
      | Inr (Some found) \<Rightarrow>
          (let mark = (\<lambda>r. r\<lparr>rs_is_completed := True, rs_completed_at := Some (utcnow env)\<rparr>);
               schedule = mark found;
               d1 = update_schedule (rs_id found) mark (db s);
               result_record = \<lparr>rr_id = 0, rr_schedule_id = schedule_id, rr_user_id = user_id,
                                rr_material_id = rs_material_id schedule,
                                rr_was_successful = was_successful,
                                rr_completed_at = utcnow env\<rparr>;
               s2 = s\<lparr>db := add_result result_record d1\<rparr>
           in case (if was_successful then update_user_statistics env s2 user_id 0 1 0
                    else update_user_statistics env s2 user_id 0 0 1) of
                (Inl e, s3) \<Rightarrow> (Inl e, s3)
              | (Inr u, s3) \<Rightarrow>
                  (let s4 = commit s3
                   in if was_successful
                      then (case create_next_repetition_on_success env s4 schedule of
                              (Inl e, s5) \<Rightarrow> (Inl e, s5)
                            | (Inr nxt, s5) \<Rightarrow> (Inr True, s5))
                      else (case create_next_repetition_on_failure env s4 schedule of
                              (Inl e, s5) \<Rightarrow> (Inl e, s5)
                            | (Inr ok, s5) \<Rightarrow> (Inr True, s5)))))"

text \<open>The \<open>WHERE\<close> clause of the sweep, and its loop over the rows found.\<close>

definition is_expired_intraday :: "int \<Rightarrow> repetition_schedule \<Rightarrow> bool" where
  "is_expired_intraday today_date r \<longleftrightarrow>
     rs_scheduled_date r < today_date \<and> \<not> rs_is_completed r \<and>
     rs_repetition_type r \<in> set intraday_types"

fun expire_loop ::
  "'a service_env_scheme \<Rightarrow> repetition_schedule list \<Rightarrow> int \<Rightarrow> session \<Rightarrow>
   (py_error + int) \<times> session" where
  "expire_loop env [] count s = (Inr count, s)"
| "expire_loop env (repetition # rest) count s =
     (let d1 = update_schedule (rs_id repetition)
                 (\<lambda>r. r\<lparr>rs_is_completed := True, rs_completed_at := Some (utcnow env)\<rparr>) (db s);
          result_record = \<lparr>rr_id = 0, rr_schedule_id = rs_id repetition,
                           rr_user_id = rs_user_id repetition,
                           rr_material_id = rs_material_id repetition,
                           rr_was_successful = False, rr_completed_at = utcnow env\<rparr>;
          s2 = s\<lparr>db := add_result result_record d1\<rparr>
      in case update_user_statistics env s2 (rs_user_id repetition) 0 0 1 of
           (Inl e, s3) \<Rightarrow> (Inl e, s3)
         | (Inr u, s3) \<Rightarrow> expire_loop env rest (count + 1) s3)"

definition auto_complete_expired_intraday_repetitions ::
  "'a service_env_scheme \<Rightarrow> session \<Rightarrow> (py_error + int) \<times> session" where
  "auto_complete_expired_intraday_repetitions env s =
     (let expired_repetitions =
            filter (is_expired_intraday (today env)) (repetition_schedules (db s))
      in case expire_loop env expired_repetitions 0 s of
           (Inl e, s1) \<Rightarrow> (Inl e, s1)
         | (Inr count, s1) \<Rightarrow> (Inr count, if count > 0 then commit s1 else s1))"

section \<open>Store invariants\<close>


text \<open>
  At most one statistics row for a user and a day. \<open>update_user_statistics\<close> looks the
  row up with \<open>scalar_one_or_none\<close>, which raises on a second row; the table has no
  unique constraint, the function itself keeps the rows unique.
\<close>

definition statistics_unique :: "int \<Rightarrow> int \<Rightarrow> database \<Rightarrow> bool" where
  "statistics_unique today_date user_id d \<longleftrightarrow>
     length (filter (\<lambda>r. st_user_id r = user_id \<and> st_date r = today_date) (statistics d)) \<le> 1"

text \<open>The incomplete entries of a user for a material, in storage order.\<close>

definition pending_entries :: "database \<Rightarrow> int \<Rightarrow> int \<Rightarrow> repetition_schedule list" where
  "pending_entries d user_id material_id =
     filter (\<lambda>r. rs_user_id r = user_id \<and> rs_material_id r = material_id \<and> \<not> rs_is_completed r)
       (repetition_schedules d)"

section \<open>Fixtures\<close>

text \<open>
  The values of the repository's tests (tests/test_utils.py): the zone
  \<open>Asia/Yekaterinburg\<close>, known to \<open>zoneinfo\<close>, and datetimes that are already in
  it, for which \<open>astimezone\<close> changes nothing. 2025-01-01 is the ordinal 739252.
\<close>


definition yekaterinburg :: string where
  "yekaterinburg = ''Asia/Yekaterinburg''"

definition tz_fixture :: tz_env where
  "tz_fixture =
     \<lparr>zoneinfo_known = (\<lambda>n. n = yekaterinburg), pytz_known = (\<lambda>n. False),
      astimezone = (\<lambda>d tz. Inr (d\<lparr>dt_tzinfo := Some tz\<rparr>))\<rparr>"

definition local_time :: "int \<Rightarrow> int \<Rightarrow> int \<Rightarrow> datetime" where
  "local_time d h m =
     \<lparr>dt_date = d, dt_hour = h, dt_minute = m, dt_second = 0, dt_microsecond = 0,
      dt_fold = 0, dt_tzinfo = Some (ZoneInfo yekaterinburg)\<rparr>"

text \<open>
  A second environment for datetimes that arrive in UTC. Asia/Yekaterinburg is five hours
  ahead of UTC all year, so \<open>astimezone\<close> adds five hours to the wall clock and
  attaches the zone. \<open>naive_time\<close> is a datetime without \<open>tzinfo\<close>.
\<close>

definition utc_time :: "int \<Rightarrow> int \<Rightarrow> int \<Rightarrow> datetime" where
  "utc_time d h m =
     \<lparr>dt_date = d, dt_hour = h, dt_minute = m, dt_second = 0, dt_microsecond = 0,
      dt_fold = 0, dt_tzinfo = Some (ZoneInfo ''UTC'')\<rparr>"

definition naive_time :: "int \<Rightarrow> int \<Rightarrow> int \<Rightarrow> datetime" where
  "naive_time d h m =
     \<lparr>dt_date = d, dt_hour = h, dt_minute = m, dt_second = 0, dt_microsecond = 0,
      dt_fold = 0, dt_tzinfo = None\<rparr>"

definition plus5_fixture :: tz_env where
  "plus5_fixture =
     \<lparr>zoneinfo_known = (\<lambda>n. n = yekaterinburg), pytz_known = (\<lambda>n. False),
      astimezone = (\<lambda>d tz.
        case datetime_add_us d (5 * 3600 * US_PER_SECOND) of
          Inl e \<Rightarrow> Inl e
        | Inr shifted \<Rightarrow> Inr (shifted\<lparr>dt_tzinfo := Some tz\<rparr>))\<rparr>"

text \<open>
  A store for the service examples: rows of the schedule table with a fixed creation
  time, a session over them, and an environment whose clock reads 2025-01-10 12:00 UTC.
\<close>

definition svc_fixture :: service_env where
  "svc_fixture =
     \<lparr>zoneinfo_known = (\<lambda>n. n = yekaterinburg), pytz_known = (\<lambda>n. False),
      astimezone = (\<lambda>d tz. Inr (d\<lparr>dt_tzinfo := Some tz\<rparr>)),
      utcnow = naive_time 739261 12 0, today = 739261,
      default_timezone = yekaterinburg\<rparr>"

definition sched_row ::
  "int \<Rightarrow> int \<Rightarrow> int \<Rightarrow> int \<Rightarrow> string \<Rightarrow> int \<Rightarrow> bool \<Rightarrow> repetition_schedule" where
  "sched_row rid material_id user_id scheduled_date repetition_type stage completed =
     \<lparr>rs_id = rid, rs_material_id = material_id, rs_user_id = user_id,
      rs_scheduled_date = scheduled_date, rs_repetition_type = repetition_type,
      rs_interval_days = 0, rs_current_stage = stage, rs_is_completed = completed,
      rs_completed_at = None, rs_created_at = naive_time 739252 10 0,
      rs_scheduled_datetime = None\<rparr>"

definition store_of :: "repetition_schedule list \<Rightarrow> session" where
  "store_of rows =
     \<lparr>db = \<lparr>users = [], study_materials = [], repetition_schedules = rows,
             repetition_results = [], statistics = [],
             next_schedule_id = 100, next_result_id = 100, next_statistics_id = 100\<rparr>,
      committed = []\<rparr>"

definition due_fixture :: "repetition_schedule list" where
  "due_fixture =
     [sched_row 1 10 7 739261 ''day_1'' 3 False,
      sched_row 2 10 7 739255 ''evening'' 2 False,
      sched_row 3 10 7 739260 ''day_3'' 4 False,
      sched_row 4 11 7 739261 ''immediate'' 0 False,
      sched_row 5 12 7 739261 ''day_7'' 5 True]"

text \<open>
  A store with the user 7 (zone Asia/Yekaterinburg), given materials and schedule rows:
  \<open>review_store\<close> holds the material 10 at stage 3 with its one pending entry, due on
  the day of the clock.
\<close>

definition material_row :: "int \<Rightarrow> int \<Rightarrow> int \<Rightarrow> study_material" where
  "material_row mid user_id stage =
     \<lparr>sm_id = mid, sm_user_id = user_id, sm_content = [], sm_created_at = naive_time 739252 10 0,
      sm_is_active = True, sm_current_stage = stage, sm_last_success_at = None\<rparr>"

definition store_with :: "study_material list \<Rightarrow> repetition_schedule list \<Rightarrow> session" where
  "store_with materials rows =
     \<lparr>db = \<lparr>users = [\<lparr>us_user_id = 7, us_timezone = yekaterinburg, us_is_active = True\<rparr>],
             study_materials = materials, repetition_schedules = rows,
             repetition_results = [], statistics = [],
             next_schedule_id = 100, next_result_id = 100, next_statistics_id = 100\<rparr>,
      committed = []\<rparr>"

definition review_store :: session where
  "review_store = store_with [material_row 10 7 3] [sched_row 1 10 7 739261 ''day_1'' 3 False]"

text \<open>
  \<open>monthly_store\<close> holds the material 10 in the monthly phase, its entry of stage 8
  just completed: the store as \<open>complete_repetition\<close> hands it to the follow-up.
\<close>

definition monthly_store :: session where
  "monthly_store = store_with [material_row 10 7 8] [sched_row 1 10 7 739261 ''monthly'' 8 True]"

section \<open>Datetime arithmetic\<close>

lemma morning_after_ok:
  "0 < dt_date d + n \<Longrightarrow> dt_date d + n \<le> MAXORDINAL \<Longrightarrow>
   morning_after tz d n =
     Inr \<lparr>dt_date = dt_date d + n, dt_hour = 7, dt_minute = 0, dt_second = 0,
          dt_microsecond = 0, dt_fold = 0, dt_tzinfo = Some tz\<rparr>"
  by (cases tz) (simp_all add: morning_after_def date_add_days_def attach_tz_def datetime_combine_def Let_def)

lemma time_us_bounds:
  assumes "valid_time d"
  shows "0 \<le> time_us d" and "time_us d < US_PER_DAY"
  using assms by (auto simp: valid_time_def time_us_def US_PER_DAY_def US_PER_SECOND_def)

lemma split_seconds:
  fixes s :: int
  shows "(s div 3600 * 3600 + s mod 3600 div 60 * 60 + s mod 3600 mod 60) = s"
  by presburger

lemma datetime_add_us_wall:
  assumes "datetime_add_us d us = Inr d'"
  shows "wall_us d' = wall_us d + us"
proof -
  define total where "total = wall_us d + us"
  define rest where "rest = total mod US_PER_DAY"
  define seconds where "seconds = rest div US_PER_SECOND"
  have d': "d' = \<lparr>dt_date = total div US_PER_DAY, dt_hour = seconds div 3600,
                  dt_minute = seconds mod 3600 div 60, dt_second = seconds mod 3600 mod 60,
                  dt_microsecond = rest mod US_PER_SECOND, dt_fold = 0,
                  dt_tzinfo = dt_tzinfo d\<rparr>"
    using assms unfolding datetime_add_us_def Let_def total_def rest_def seconds_def
    by (auto split: if_splits)
  have "time_us d' = seconds * US_PER_SECOND + rest mod US_PER_SECOND"
    unfolding time_us_def d' using split_seconds [of seconds] by simp
  also have "\<dots> = rest" by (simp add: seconds_def)
  finally have "wall_us d' = total div US_PER_DAY * US_PER_DAY + rest"
    by (simp add: wall_us_def d')
  then show ?thesis by (simp add: rest_def total_def)
qed

lemma datetime_add_us_valid:
  assumes "datetime_add_us d us = Inr d'"
  shows "valid_time d'" and "dt_tzinfo d' = dt_tzinfo d" and "dt_fold d' = 0"
    and "0 < dt_date d'" and "dt_date d' \<le> MAXORDINAL"
proof -
  define total where "total = wall_us d + us"
  define rest where "rest = total mod US_PER_DAY"
  define seconds where "seconds = rest div US_PER_SECOND"
  have d': "d' = \<lparr>dt_date = total div US_PER_DAY, dt_hour = seconds div 3600,
                  dt_minute = seconds mod 3600 div 60, dt_second = seconds mod 3600 mod 60,
                  dt_microsecond = rest mod US_PER_SECOND, dt_fold = 0,
                  dt_tzinfo = dt_tzinfo d\<rparr>"
    and rng: "0 < total div US_PER_DAY" "total div US_PER_DAY \<le> MAXORDINAL"
    using assms unfolding datetime_add_us_def Let_def total_def rest_def seconds_def
    by (auto split: if_splits)
  have "0 \<le> rest" "rest < 86400 * 1000000"
    by (simp_all add: rest_def US_PER_DAY_def)
  then have "0 \<le> seconds" "seconds < 86400"
    unfolding seconds_def US_PER_SECOND_def by (simp_all add: div_less_iff_less_mult pos_imp_zdiv_nonneg_iff)
  then have "0 \<le> seconds div 3600" "seconds div 3600 < 24"
    by (simp_all add: div_less_iff_less_mult pos_imp_zdiv_nonneg_iff)
  moreover have "0 \<le> seconds mod 3600 div 60 \<and> seconds mod 3600 div 60 < 60"
  proof -
    have "0 \<le> seconds mod 3600" "seconds mod 3600 < 3600" by simp_all
    then show ?thesis by (simp add: div_less_iff_less_mult pos_imp_zdiv_nonneg_iff)
  qed
  ultimately show "valid_time d'"
    by (simp add: valid_time_def d' US_PER_SECOND_def)
  show "dt_tzinfo d' = dt_tzinfo d" "dt_fold d' = 0" by (simp_all add: d')
  show "0 < dt_date d'" "dt_date d' \<le> MAXORDINAL" using rng by (simp_all add: d')
qed

lemma int_div_bounds:
  fixes D :: int
  assumes "0 < D" and "a * D \<le> t" and "t < b * D"
  shows "a \<le> t div D" and "t div D < b"
proof -
  have "a = (a * D) div D" using assms(1) by simp
  also have "\<dots> \<le> t div D" using assms(2,1) by (rule zdiv_mono1)
  finally show "a \<le> t div D" .
  show "t div D < b"
  proof (rule ccontr)
    assume "\<not> t div D < b"
    then have le: "b * D \<le> t div D * D" using assms(1) by (simp add: mult_right_mono)
    have nonneg: "0 \<le> t mod D" using assms(1) by simp
    have "t div D * D + t mod D = t" by simp
    with nonneg have "t div D * D \<le> t" by linarith
    with le show False using assms(3) by simp
  qed
qed

lemma datetime_add_us_succeeds:
  assumes "valid_time d" and "0 < dt_date d" and "dt_date d < MAXORDINAL"
    and "0 \<le> us" and "us \<le> US_PER_DAY"
  shows "\<exists>d'. datetime_add_us d us = Inr d'"
proof -
  define total where "total = wall_us d + us"
  have lo: "dt_date d * US_PER_DAY \<le> total"
    using time_us_bounds [OF assms(1)] assms(4) by (simp add: total_def wall_us_def)
  have hi: "total < (dt_date d + 2) * US_PER_DAY"
    using time_us_bounds [OF assms(1)] assms(5) by (simp add: total_def wall_us_def algebra_simps)
  have "dt_date d \<le> total div US_PER_DAY \<and> total div US_PER_DAY < dt_date d + 2"
    using int_div_bounds [OF _ lo hi] by (simp add: US_PER_DAY_def)
  then have "0 < total div US_PER_DAY \<and> total div US_PER_DAY \<le> MAXORDINAL"
    using assms(2,3) by linarith
  then show ?thesis
    unfolding datetime_add_us_def Let_def total_def by simp
qed

section \<open>The transition table\<close>

lemma evening_le_iff:
  assumes "valid_time c"
  shows "datetime_le (c\<lparr>dt_hour := 20, dt_minute := 0, dt_second := 0, dt_microsecond := 0\<rparr>) c
           \<longleftrightarrow> 20 \<le> dt_hour c"
  using assms by (auto simp: datetime_le_def datetime_key_def valid_time_def)

lemma evening_rolls:
  assumes "0 \<le> dt_date c" and "dt_date c < MAXORDINAL"
  shows "datetime_add_us (c\<lparr>dt_hour := 20, dt_minute := 0, dt_second := 0, dt_microsecond := 0\<rparr>)
           (timedelta_days 1) =
         Inr \<lparr>dt_date = dt_date c + 1, dt_hour = 20, dt_minute = 0, dt_second = 0,
              dt_microsecond = 0, dt_fold = 0, dt_tzinfo = dt_tzinfo c\<rparr>"
proof -
  have "(dt_date c * 86400000000 + 72000000000 + 86400000000) =
        (dt_date c + 1) * 86400000000 + 72000000000" by simp
  then have total: "(dt_date c * 86400000000 + 72000000000 + 86400000000) div 86400000000 = dt_date c + 1"
    "(dt_date c * 86400000000 + 72000000000 + 86400000000) mod 86400000000 = 72000000000"
    by simp_all
  show ?thesis
    using assms total
    by (simp add: datetime_add_us_def Let_def wall_us_def time_us_def timedelta_days_def
        US_PER_DAY_def US_PER_SECOND_def)
qed

lemma next_stage0:
  assumes "get_tz env timezone_name = Inr tz"
    and "localize env tz created_at = Inr c"
    and "valid_time c" and "0 < dt_date c" and "dt_date c < MAXORDINAL"
  shows "\<exists>d. calculate_next_repetition env created_at 0 timezone_name last_success_at = Inr (d, 1) \<and>
             wall_us d = wall_us c + 20 * 60 * 1000000 \<and> valid_time d \<and>
             dt_tzinfo d = dt_tzinfo c"
proof -
  have "0 \<le> timedelta_minutes 20" "timedelta_minutes 20 \<le> US_PER_DAY"
    by (simp_all add: timedelta_minutes_def US_PER_DAY_def US_PER_SECOND_def)
  from datetime_add_us_succeeds [OF assms(3,4,5) this]
  obtain d where d: "datetime_add_us c (timedelta_minutes 20) = Inr d" by blast
  have "calculate_next_repetition env created_at 0 timezone_name last_success_at = Inr (d, 1)"
    using assms(1,2) d by (simp add: calculate_next_repetition_def)
  moreover have "wall_us d = wall_us c + 20 * 60 * 1000000"
    using datetime_add_us_wall [OF d] by (simp add: timedelta_minutes_def US_PER_SECOND_def)
  ultimately show ?thesis using datetime_add_us_valid(1,2) [OF d] by blast
qed

lemma next_stage1:
  assumes "get_tz env timezone_name = Inr tz"
    and "localize env tz created_at = Inr c"
    and "valid_time c" and "0 \<le> dt_date c" and "dt_date c < MAXORDINAL"
  shows "calculate_next_repetition env created_at 1 timezone_name last_success_at =
           Inr (if 20 \<le> dt_hour c
                then \<lparr>dt_date = dt_date c + 1, dt_hour = 20, dt_minute = 0, dt_second = 0,
                      dt_microsecond = 0, dt_fold = 0, dt_tzinfo = dt_tzinfo c\<rparr>
                else c\<lparr>dt_hour := 20, dt_minute := 0, dt_second := 0, dt_microsecond := 0\<rparr>, 2)"
  using assms(1,2) evening_le_iff [OF assms(3)] evening_rolls [OF assms(4,5)]
  by (simp add: calculate_next_repetition_def Let_def)

lemma next_long:
  assumes "get_tz env timezone_name = Inr tz"
    and "localize env tz created_at = Inr c"
    and "0 \<le> dt_date c" and "dt_date c + 30 \<le> MAXORDINAL"
    and "(s, n) \<in> {(2, 1), (3, 3), (4, 7), (5, 14), (6, 30)}"
  shows "calculate_next_repetition env created_at s timezone_name last_success_at =
           Inr (\<lparr>dt_date = dt_date c + n, dt_hour = 7, dt_minute = 0, dt_second = 0,
                 dt_microsecond = 0, dt_fold = 0, dt_tzinfo = Some tz\<rparr>, s + 1)"
  using assms by (auto simp: calculate_next_repetition_def morning_after_ok)

lemma next_monthly:
  assumes "get_tz env timezone_name = Inr tz"
    and "localize env tz created_at = Inr c"
    and "(case last_success_at of None \<Rightarrow> Inr c | Some ls \<Rightarrow> localize env tz ls) = Inr b"
    and "0 \<le> dt_date b" and "dt_date b + 30 \<le> MAXORDINAL"
    and "7 \<le> s"
  shows "calculate_next_repetition env created_at s timezone_name last_success_at =
           Inr (\<lparr>dt_date = dt_date b + 30, dt_hour = 7, dt_minute = 0, dt_second = 0,
                 dt_microsecond = 0, dt_fold = 0, dt_tzinfo = Some tz\<rparr>, 8)"
  using assms by (simp add: calculate_next_repetition_def morning_after_ok)

lemma fixture_tz: "get_tz tz_fixture yekaterinburg = Inr (ZoneInfo yekaterinburg)"
  by (simp add: get_tz_def tz_fixture_def)

lemma fixture_localize:
  "localize tz_fixture (ZoneInfo yekaterinburg) (local_time d h m) = Inr (local_time d h m)"
  by (simp add: localize_def tz_fixture_def local_time_def)

lemma localize_iff:
  "localize env tz d = Inr c \<longleftrightarrow>
     (if dt_tzinfo d = None then c = d\<lparr>dt_tzinfo := Some tz\<rparr> else astimezone env d tz = Inr c)"
  by (cases tz) (auto simp: localize_def attach_tz_def)

text \<open>
  Claim C1. Let \<open>c\<close> be the creation time in the zone: the given wall clock with the
  zone attached when the argument is naive, and what \<open>astimezone\<close> returns when it is
  aware. For a resolvable zone name and dates that stay within Python's range,
  \<open>calculate_next_repetition\<close> follows the table: stage 0 gives \<open>c\<close> plus 20 minutes
  and stage 1; stage 1 gives 20:00 of the day of \<open>c\<close>, or of the next day when 20:00 is
  not after \<open>c\<close>, and stage 2; the stages 2 to 6 give the date of \<open>c\<close> plus 1, 3, 7,
  14, 30 days at 07:00 and the next stage; stage 7 gives the base date (the last success
  put into the zone in the same way if given, else \<open>c\<close>) plus 30 days at 07:00 and
  stage 8.
\<close>

theorem next_repetition_table:
  assumes "get_tz env timezone_name = Inr tz"
    and "if dt_tzinfo created_at = None then c = created_at\<lparr>dt_tzinfo := Some tz\<rparr>
         else astimezone env created_at tz = Inr c"
    and "case last_success_at of
           None \<Rightarrow> b = c
         | Some ls \<Rightarrow> if dt_tzinfo ls = None then b = ls\<lparr>dt_tzinfo := Some tz\<rparr>
                      else astimezone env ls tz = Inr b"
    and "valid_time c" and "0 < dt_date c" and "dt_date c + 30 \<le> MAXORDINAL"
    and "0 \<le> dt_date b" and "dt_date b + 30 \<le> MAXORDINAL"
  shows
    "(\<exists>d. calculate_next_repetition env created_at 0 timezone_name last_success_at = Inr (d, 1) \<and>
          wall_us d = wall_us c + 20 * 60 * 1000000 \<and> valid_time d \<and>
          dt_tzinfo d = dt_tzinfo c) \<and>
     calculate_next_repetition env created_at 1 timezone_name last_success_at =
       Inr (if datetime_le (c\<lparr>dt_hour := 20, dt_minute := 0, dt_second := 0,
                               dt_microsecond := 0\<rparr>) c
            then \<lparr>dt_date = dt_date c + 1, dt_hour = 20, dt_minute = 0, dt_second = 0,
                  dt_microsecond = 0, dt_fold = 0, dt_tzinfo = dt_tzinfo c\<rparr>
            else c\<lparr>dt_hour := 20, dt_minute := 0, dt_second := 0, dt_microsecond := 0\<rparr>, 2) \<and>
     (\<forall>(s, n) \<in> {(2, 1), (3, 3), (4, 7), (5, 14), (6, 30)}.
        calculate_next_repetition env created_at s timezone_name last_success_at =
          Inr (\<lparr>dt_date = dt_date c + n, dt_hour = 7, dt_minute = 0, dt_second = 0,
                dt_microsecond = 0, dt_fold = 0, dt_tzinfo = Some tz\<rparr>, s + 1)) \<and>
     calculate_next_repetition env created_at 7 timezone_name last_success_at =
       Inr (\<lparr>dt_date = dt_date b + 30, dt_hour = 7, dt_minute = 0, dt_second = 0,
             dt_microsecond = 0, dt_fold = 0, dt_tzinfo = Some tz\<rparr>, 8)"
proof -
  have loc: "localize env tz created_at = Inr c"
    using assms(2) by (simp add: localize_iff)
  have base: "(case last_success_at of None \<Rightarrow> Inr c | Some ls \<Rightarrow> localize env tz ls) = Inr b"
    using assms(3) by (simp add: localize_iff split: option.splits)
  have lt: "dt_date c < MAXORDINAL" and ge: "0 \<le> dt_date c"
    using assms(5,6) by simp_all
  have s0: "\<exists>d. calculate_next_repetition env created_at 0 timezone_name last_success_at = Inr (d, 1) \<and>
          wall_us d = wall_us c + 20 * 60 * 1000000 \<and> valid_time d \<and>
          dt_tzinfo d = dt_tzinfo c"
    by (rule next_stage0 [OF assms(1) loc assms(4,5) lt])
  have s1: "calculate_next_repetition env created_at 1 timezone_name last_success_at =
       Inr (if datetime_le (c\<lparr>dt_hour := 20, dt_minute := 0, dt_second := 0,
                               dt_microsecond := 0\<rparr>) c
            then \<lparr>dt_date = dt_date c + 1, dt_hour = 20, dt_minute = 0, dt_second = 0,
                  dt_microsecond = 0, dt_fold = 0, dt_tzinfo = dt_tzinfo c\<rparr>
            else c\<lparr>dt_hour := 20, dt_minute := 0, dt_second := 0, dt_microsecond := 0\<rparr>, 2)"
    unfolding evening_le_iff [OF assms(4)]
    by (rule next_stage1 [OF assms(1) loc assms(4) ge lt])
  have long: "\<forall>(s, n) \<in> {(2, 1), (3, 3), (4, 7), (5, 14), (6, 30)}.
        calculate_next_repetition env created_at s timezone_name last_success_at =
          Inr (\<lparr>dt_date = dt_date c + n, dt_hour = 7, dt_minute = 0, dt_second = 0,
                dt_microsecond = 0, dt_fold = 0, dt_tzinfo = Some tz\<rparr>, s + 1)"
    using next_long [OF assms(1) loc ge assms(6)] by blast
  have s7: "calculate_next_repetition env created_at 7 timezone_name last_success_at =
       Inr (\<lparr>dt_date = dt_date b + 30, dt_hour = 7, dt_minute = 0, dt_second = 0,
             dt_microsecond = 0, dt_fold = 0, dt_tzinfo = Some tz\<rparr>, 8)"
    by (rule next_monthly [OF assms(1) loc base assms(7,8)]) simp
  from s0 s1 long s7 show ?thesis by blast
qed

lemma plus5_tz: "get_tz plus5_fixture yekaterinburg = Inr (ZoneInfo yekaterinburg)"
  by (simp add: get_tz_def plus5_fixture_def)

lemma plus5_evening:
  "astimezone plus5_fixture (utc_time 739252 18 0) (ZoneInfo yekaterinburg) =
     Inr (local_time 739252 23 0)"
  by (simp add: plus5_fixture_def utc_time_def local_time_def datetime_add_us_def wall_us_def
      time_us_def US_PER_DAY_def US_PER_SECOND_def MAXORDINAL_def Let_def)

lemma plus5_night:
  "astimezone plus5_fixture (utc_time 739252 23 0) (ZoneInfo yekaterinburg) =
     Inr (local_time 739253 4 0)"
  by (simp add: plus5_fixture_def utc_time_def local_time_def datetime_add_us_def wall_us_def
      time_us_def US_PER_DAY_def US_PER_SECOND_def MAXORDINAL_def Let_def)

text \<open>
  The table at 2025-01-01 18:00 UTC, which is 23:00 in the zone: the evening slot rolls to
  the next local day and the long intervals count from the local date; and at a naive
  10:00, taken as local time.
\<close>

theorem next_repetition_table_witness:
  "(\<exists>d. calculate_next_repetition plus5_fixture (utc_time 739252 18 0) 0 yekaterinburg None
            = Inr (d, 1) \<and>
        wall_us d = wall_us (local_time 739252 23 0) + 20 * 60 * 1000000 \<and> valid_time d \<and>
        dt_tzinfo d = Some (ZoneInfo yekaterinburg)) \<and>
   calculate_next_repetition plus5_fixture (utc_time 739252 18 0) 1 yekaterinburg None
     = Inr (local_time 739253 20 0, 2) \<and>
   calculate_next_repetition plus5_fixture (utc_time 739252 18 0) 3 yekaterinburg None
     = Inr (local_time 739255 7 0, 4) \<and>
   calculate_next_repetition plus5_fixture (utc_time 739252 18 0) 7 yekaterinburg
       (Some (utc_time 739252 23 0))
     = Inr (local_time 739283 7 0, 8) \<and>
   calculate_next_repetition plus5_fixture (naive_time 739252 10 0) 1 yekaterinburg None
     = Inr (local_time 739252 20 0, 2) \<and>
   calculate_next_repetition plus5_fixture (naive_time 739252 10 0) 2 yekaterinburg None
     = Inr (local_time 739253 7 0, 3)"
proof -
  have c: "if dt_tzinfo (utc_time 739252 18 0) = None
           then local_time 739252 23 0 = (utc_time 739252 18 0)
                  \<lparr>dt_tzinfo := Some (ZoneInfo yekaterinburg)\<rparr>
           else astimezone plus5_fixture (utc_time 739252 18 0) (ZoneInfo yekaterinburg)
                  = Inr (local_time 739252 23 0)"
    using plus5_evening by (simp add: utc_time_def)
  have b0: "case None of
              None \<Rightarrow> local_time 739252 23 0 = local_time 739252 23 0
            | Some ls \<Rightarrow> if dt_tzinfo ls = None
                then local_time 739252 23 0 = ls\<lparr>dt_tzinfo := Some (ZoneInfo yekaterinburg)\<rparr>
                else astimezone plus5_fixture ls (ZoneInfo yekaterinburg)
                       = Inr (local_time 739252 23 0)"
    by simp
  have b1: "case Some (utc_time 739252 23 0) of
              None \<Rightarrow> local_time 739253 4 0 = local_time 739252 23 0
            | Some ls \<Rightarrow> if dt_tzinfo ls = None
                then local_time 739253 4 0 = ls\<lparr>dt_tzinfo := Some (ZoneInfo yekaterinburg)\<rparr>
                else astimezone plus5_fixture ls (ZoneInfo yekaterinburg)
                       = Inr (local_time 739253 4 0)"
    using plus5_night by (simp add: utc_time_def)
  have n: "if dt_tzinfo (naive_time 739252 10 0) = None
           then local_time 739252 10 0 = (naive_time 739252 10 0)
                  \<lparr>dt_tzinfo := Some (ZoneInfo yekaterinburg)\<rparr>
           else astimezone plus5_fixture (naive_time 739252 10 0) (ZoneInfo yekaterinburg)
                  = Inr (local_time 739252 10 0)"
    by (simp add: naive_time_def local_time_def)
  have nb: "case None of
              None \<Rightarrow> local_time 739252 10 0 = local_time 739252 10 0
            | Some ls \<Rightarrow> if dt_tzinfo ls = None
                then local_time 739252 10 0 = ls\<lparr>dt_tzinfo := Some (ZoneInfo yekaterinburg)\<rparr>
                else astimezone plus5_fixture ls (ZoneInfo yekaterinburg)
                       = Inr (local_time 739252 10 0)"
    by simp
  have v: "valid_time (local_time 739252 23 0)" "0 < dt_date (local_time 739252 23 0)"
    "dt_date (local_time 739252 23 0) + 30 \<le> MAXORDINAL"
    "0 \<le> dt_date (local_time 739252 23 0)"
    "0 \<le> dt_date (local_time 739253 4 0)" "dt_date (local_time 739253 4 0) + 30 \<le> MAXORDINAL"
    "valid_time (local_time 739252 10 0)" "0 < dt_date (local_time 739252 10 0)"
    "dt_date (local_time 739252 10 0) + 30 \<le> MAXORDINAL"
    "0 \<le> dt_date (local_time 739252 10 0)"
    by (simp_all add: valid_time_def local_time_def MAXORDINAL_def)
  note t0 = next_repetition_table [OF plus5_tz c b0 v(1,2,3,4,3)]
  note t7 = next_repetition_table [OF plus5_tz c b1 v(1,2,3,5,6)]
  note tn = next_repetition_table [OF plus5_tz n nb v(7,8,9,10,9)]
  have late: "datetime_le (local_time 739252 23 0\<lparr>dt_hour := 20, dt_minute := 0, dt_second := 0,
                               dt_microsecond := 0\<rparr>) (local_time 739252 23 0)"
    by (simp add: datetime_le_def datetime_key_def local_time_def)
  have early: "\<not> datetime_le (local_time 739252 10 0\<lparr>dt_hour := 20, dt_minute := 0, dt_second := 0,
                               dt_microsecond := 0\<rparr>) (local_time 739252 10 0)"
    by (simp add: datetime_le_def datetime_key_def local_time_def)
  from t0 have a0: "\<exists>d. calculate_next_repetition plus5_fixture (utc_time 739252 18 0) 0
        yekaterinburg None = Inr (d, 1) \<and>
        wall_us d = wall_us (local_time 739252 23 0) + 20 * 60 * 1000000 \<and> valid_time d \<and>
        dt_tzinfo d = Some (ZoneInfo yekaterinburg)"
    by (simp add: local_time_def)
  from t0 late have a1: "calculate_next_repetition plus5_fixture (utc_time 739252 18 0) 1
       yekaterinburg None = Inr (local_time 739253 20 0, 2)"
    by (simp add: local_time_def)
  from t0 have a3: "calculate_next_repetition plus5_fixture (utc_time 739252 18 0) 3
       yekaterinburg None = Inr (local_time 739255 7 0, 4)"
    by (simp add: local_time_def)
  from t7 have a7: "calculate_next_repetition plus5_fixture (utc_time 739252 18 0) 7
       yekaterinburg (Some (utc_time 739252 23 0)) = Inr (local_time 739283 7 0, 8)"
    by (simp add: local_time_def)
  from tn early have n1: "calculate_next_repetition plus5_fixture (naive_time 739252 10 0) 1
       yekaterinburg None = Inr (local_time 739252 20 0, 2)"
    by (simp add: local_time_def)
  from tn have n2: "calculate_next_repetition plus5_fixture (naive_time 739252 10 0) 2
       yekaterinburg None = Inr (local_time 739253 7 0, 3)"
    by (simp add: local_time_def)
  from a0 a1 a3 a7 n1 n2 show ?thesis by blast
qed

text \<open>
  Claim C2. For every stage \<open>s \<ge> 7\<close> the next stage is 8 and the due time is the base
  date plus 30 days at 07:00; stage 7 and every later stage give the same result.
\<close>

theorem monthly_phase_is_stable:
  assumes "get_tz env timezone_name = Inr tz"
    and "localize env tz created_at = Inr c"
    and "(case last_success_at of None \<Rightarrow> Inr c | Some ls \<Rightarrow> localize env tz ls) = Inr b"
    and "0 \<le> dt_date b" and "dt_date b + 30 \<le> MAXORDINAL"
    and "7 \<le> s"
  shows "calculate_next_repetition env created_at s timezone_name last_success_at =
           Inr (\<lparr>dt_date = dt_date b + 30, dt_hour = 7, dt_minute = 0, dt_second = 0,
                 dt_microsecond = 0, dt_fold = 0, dt_tzinfo = Some tz\<rparr>, 8) \<and>
         calculate_next_repetition env created_at s timezone_name last_success_at =
           calculate_next_repetition env created_at 7 timezone_name last_success_at"
proof -
  have "(7::int) \<le> 7" by simp
  from next_monthly [OF assms] next_monthly [OF assms(1-5) this]
  show ?thesis by simp
qed

theorem monthly_phase_is_stable_witness:
  "calculate_next_repetition tz_fixture (local_time 739252 10 0) 8 yekaterinburg
       (Some (local_time 739283 10 0))
     = Inr (local_time 739313 7 0, 8) \<and>
   calculate_next_repetition tz_fixture (local_time 739252 10 0) 8 yekaterinburg
       (Some (local_time 739283 10 0))
     = calculate_next_repetition tz_fixture (local_time 739252 10 0) 7 yekaterinburg
       (Some (local_time 739283 10 0))"
proof -
  have v: "0 \<le> dt_date (local_time 739283 10 0)"
    "dt_date (local_time 739283 10 0) + 30 \<le> MAXORDINAL" "(7::int) \<le> 8"
    by (simp_all add: local_time_def MAXORDINAL_def)
  have b: "(case Some (local_time 739283 10 0) of None \<Rightarrow> Inr (local_time 739252 10 0)
            | Some ls \<Rightarrow> localize tz_fixture (ZoneInfo yekaterinburg) ls)
           = Inr (local_time 739283 10 0)"
    by (simp add: fixture_localize)
  have "dt_date (local_time 739283 10 0) + 30 = 739313"
    by (simp add: local_time_def)
  with monthly_phase_is_stable [OF fixture_tz fixture_localize b v]
  show ?thesis
    unfolding local_time_def by metis
qed

text \<open>
  Claim C3. Let \<open>failed\<close> be the failure time in the zone (the wall clock with the zone
  attached for a naive argument, the result of \<open>astimezone\<close> for an aware one).
  \<open>calculate_failed_repetition\<close> returns the stage \<open>max 0 (s - 1)\<close> and the day
  after the date of \<open>failed\<close> at 07:00 in the zone, whatever the stage.
\<close>

theorem failed_repetition_rolls_back:
  assumes "get_tz env timezone_name = Inr tz"
    and "if dt_tzinfo failed_at = None then failed = failed_at\<lparr>dt_tzinfo := Some tz\<rparr>
         else astimezone env failed_at tz = Inr failed"
    and "0 \<le> dt_date failed" and "dt_date failed < MAXORDINAL"
  shows "calculate_failed_repetition env failed_at current_stage timezone_name =
           Inr (\<lparr>dt_date = dt_date failed + 1, dt_hour = 7, dt_minute = 0, dt_second = 0,
                 dt_microsecond = 0, dt_fold = 0, dt_tzinfo = Some tz\<rparr>,
                max 0 (current_stage - 1))"
proof -
  have "localize env tz failed_at = Inr failed"
    using assms(2) by (simp add: localize_iff)
  then show ?thesis
    using assms(1,3,4)
    by (simp add: calculate_failed_repetition_def morning_after_ok Let_def)
qed

text \<open>
  A failure at 2025-01-01 23:00 UTC is on 2025-01-02 in the zone, so the retry is due on
  2025-01-03; a naive 2025-01-10 15:30 is taken as local time.
\<close>

theorem failed_repetition_rolls_back_witness:
  "calculate_failed_repetition plus5_fixture (utc_time 739252 23 0) 5 yekaterinburg =
     Inr (local_time 739254 7 0, 4) \<and>
   calculate_failed_repetition plus5_fixture (utc_time 739252 23 0) 0 yekaterinburg =
     Inr (local_time 739254 7 0, 0) \<and>
   calculate_failed_repetition plus5_fixture (naive_time 739261 15 30) 8 yekaterinburg =
     Inr (local_time 739262 7 0, 7)"
proof -
  have f: "if dt_tzinfo (utc_time 739252 23 0) = None
           then local_time 739253 4 0 = (utc_time 739252 23 0)
                  \<lparr>dt_tzinfo := Some (ZoneInfo yekaterinburg)\<rparr>
           else astimezone plus5_fixture (utc_time 739252 23 0) (ZoneInfo yekaterinburg)
                  = Inr (local_time 739253 4 0)"
    using plus5_night by (simp add: utc_time_def)
  have n: "if dt_tzinfo (naive_time 739261 15 30) = None
           then local_time 739261 15 30 = (naive_time 739261 15 30)
                  \<lparr>dt_tzinfo := Some (ZoneInfo yekaterinburg)\<rparr>
           else astimezone plus5_fixture (naive_time 739261 15 30) (ZoneInfo yekaterinburg)
                  = Inr (local_time 739261 15 30)"
    by (simp add: naive_time_def local_time_def)
  have v: "0 \<le> dt_date (local_time 739253 4 0)" "dt_date (local_time 739253 4 0) < MAXORDINAL"
    "0 \<le> dt_date (local_time 739261 15 30)" "dt_date (local_time 739261 15 30) < MAXORDINAL"
    by (simp_all add: local_time_def MAXORDINAL_def)
  show ?thesis
    using failed_repetition_rolls_back [OF plus5_tz f v(1,2), of 5]
      failed_repetition_rolls_back [OF plus5_tz f v(1,2), of 0]
      failed_repetition_rolls_back [OF plus5_tz n v(3,4), of 8]
    by (simp add: local_time_def)
qed

text \<open>
  Claim C10. For a negative stage the two lookups return their defaults,
  \<open>unknown\<close> and the "unknown stage" text, and neither default is an entry of the
  tables.
\<close>

theorem stage_table_negative:
  "stage < 0 \<Longrightarrow>
     get_stage_name stage = ''unknown'' \<and>
     get_stage_description stage = unknown_description \<and>
     ''unknown'' \<notin> set (map snd stage_names) \<and>
     unknown_description \<notin> set (map snd stage_descriptions)"
  by (simp add: get_stage_name_def get_stage_description_def stage_names_def
      stage_descriptions_def unknown_description_def)

theorem stage_table_negative_witness:
  "get_stage_name (- 1) = ''unknown'' \<and> get_stage_description (- 1) = unknown_description"
proof -
  have "(- 1 :: int) < 0" by simp
  from stage_table_negative [OF this] show ?thesis by blast
qed

section \<open>The due query\<close>

lemma unique_loop_keeps:
  "set unique_repetitions \<subseteq> set (unique_loop xs unique_repetitions seen)"
  by (induction xs arbitrary: unique_repetitions seen) (auto simp: subset_iff)

lemma unique_loop_subset:
  "set (unique_loop xs unique_repetitions seen) \<subseteq> set unique_repetitions \<union> set xs"
proof (induction xs arbitrary: unique_repetitions seen)
  case Nil
  show ?case by simp
next
  case (Cons x xs)
  show ?case
    using Cons.IH [of "unique_repetitions @ [x]" "insert (rs_material_id x) seen"]
      Cons.IH [of unique_repetitions seen]
    by auto
qed

lemma unique_loop_distinct:
  "seen = rs_material_id ` set acc \<Longrightarrow> distinct (map rs_material_id acc) \<Longrightarrow>
   distinct (map rs_material_id (unique_loop xs acc seen))"
proof (induction xs arbitrary: acc seen)
  case Nil
  then show ?case by simp
next
  case (Cons x xs)
  show ?case
  proof (cases "rs_material_id x \<in> seen")
    case True
    then show ?thesis using Cons.IH [OF Cons.prems] by simp
  next
    case False
    have inv: "insert (rs_material_id x) seen = rs_material_id ` set (acc @ [x])"
      using Cons.prems(1) by auto
    have dis: "distinct (map rs_material_id (acc @ [x]))"
      using Cons.prems False by auto
    from Cons.IH [OF inv dis] False show ?thesis by simp
  qed
qed

lemma unique_loop_sorted:
  "sorted (map f (acc @ xs)) \<Longrightarrow> sorted (map f (unique_loop xs acc seen))"
proof (induction xs arbitrary: acc seen)
  case Nil
  then show ?case by simp
next
  case (Cons x xs)
  have "sorted (map f (acc @ xs))"
    using Cons.prems by (auto simp: sorted_append)
  moreover have "sorted (map f ((acc @ [x]) @ xs))"
    using Cons.prems by simp
  ultimately show ?case
    using Cons.IH by simp
qed

lemma unique_loop_first:
  "seen = rs_material_id ` set acc \<Longrightarrow> sorted (map f (acc @ xs)) \<Longrightarrow> r \<in> set (acc @ xs) \<Longrightarrow>
   \<exists>q \<in> set (unique_loop xs acc seen). rs_material_id q = rs_material_id r \<and> f q \<le> f r"
proof (induction xs arbitrary: acc seen r)
  case Nil
  then show ?case by auto
next
  case (Cons x xs)
  show ?case
  proof (cases "rs_material_id x \<in> seen")
    case False
    have inv: "insert (rs_material_id x) seen = rs_material_id ` set (acc @ [x])"
      using Cons.prems(1) by auto
    have srt: "sorted (map f ((acc @ [x]) @ xs))" using Cons.prems(2) by simp
    have mem: "r \<in> set ((acc @ [x]) @ xs)" using Cons.prems(3) by simp
    from Cons.IH [OF inv srt mem] False show ?thesis by simp
  next
    case True
    have srt: "sorted (map f (acc @ xs))"
      using Cons.prems(2) by (auto simp: sorted_append)
    show ?thesis
    proof (cases "r \<in> set (acc @ xs)")
      case True
      from Cons.IH [OF Cons.prems(1) srt True] \<open>rs_material_id x \<in> seen\<close>
      show ?thesis by simp
    next
      case False
      then have rx: "r = x" using Cons.prems(3) by auto
      from \<open>rs_material_id x \<in> seen\<close> Cons.prems(1)
      obtain a where a: "a \<in> set acc" "rs_material_id a = rs_material_id x" by auto
      have le: "f a \<le> f x" using Cons.prems(2) a(1) by (auto simp: sorted_append)
      have "a \<in> set (acc @ xs)" using a(1) by simp
      from Cons.IH [OF Cons.prems(1) srt this]
      obtain q where "q \<in> set (unique_loop xs acc seen)"
        "rs_material_id q = rs_material_id a" "f q \<le> f a" by blast
      with a(2) le rx \<open>rs_material_id x \<in> seen\<close> show ?thesis
        by (auto intro!: bexI [of _ q])
    qed
  qed
qed

text \<open>The rows the query selects: the \<open>WHERE\<close> clause with the optional owner filter.\<close>

lemma due_selection:
  "set (get_due_repetitions env s user_id target_date) \<subseteq>
     {r \<in> set (repetition_schedules (db s)).
        is_due (case target_date of None \<Rightarrow> today env | Some d \<Rightarrow> d) r \<and>
        (\<forall>u. user_id = Some u \<and> u \<noteq> 0 \<longrightarrow> rs_user_id r = u)}"
  using unique_loop_subset [of _ "[]" "{}"]
  by (fastforce simp: get_due_repetitions_def Let_def split: option.splits if_splits)

text \<open>
  Claim C7. The rows \<open>get_due_repetitions\<close> returns are rows of the store that are
  incomplete and either of an intraday kind scheduled on the target date or of a
  long-horizon kind scheduled on or before it (and of the given owner, when one is
  given); they are ordered by scheduled date, stage and creation time; no two of them
  belong to the same material; and every such row of the store is represented by a
  returned row of its material that is not after it in that order.
\<close>

theorem due_repetitions_characterised:
  assumes "D = (case target_date of None \<Rightarrow> today env | Some d \<Rightarrow> d)"
    and "due = get_due_repetitions env s user_id target_date"
    and "wanted = (\<lambda>r. \<not> rs_is_completed r \<and>
           ((rs_repetition_type r \<in> {''immediate'', ''short_term'', ''evening''} \<and>
             rs_scheduled_date r = D) \<or>
            (rs_repetition_type r \<in> {''day_1'', ''day_3'', ''day_7'', ''day_14'', ''day_30'',
                                       ''monthly''} \<and>
             rs_scheduled_date r \<le> D)) \<and>
           (\<forall>u. user_id = Some u \<and> u \<noteq> 0 \<longrightarrow> rs_user_id r = u))"
    and "order = (\<lambda>r. (rs_scheduled_date r, rs_current_stage r, datetime_key (rs_created_at r)))"
  shows "(\<forall>r \<in> set due. r \<in> set (repetition_schedules (db s)) \<and> wanted r) \<and>
         (\<forall>r \<in> set (repetition_schedules (db s)). wanted r \<longrightarrow>
            (\<exists>q \<in> set due. rs_material_id q = rs_material_id r \<and> order q \<le> order r)) \<and>
         sorted (map order due) \<and>
         distinct (map rs_material_id due)"
proof -
  define sel where "sel = filter wanted (repetition_schedules (db s))"
  have w: "wanted = (\<lambda>r. is_due D r \<and> (\<forall>u. user_id = Some u \<and> u \<noteq> 0 \<longrightarrow> rs_user_id r = u))"
    unfolding assms(3) is_due_def intraday_types_def long_term_types_def by auto
  have o: "order = due_order" unfolding assms(4) due_order_def ..
  have sel: "(case user_id of
                None \<Rightarrow> filter (is_due D) (repetition_schedules (db s))
              | Some u \<Rightarrow> if u \<noteq> 0
                          then filter (\<lambda>r. rs_user_id r = u)
                                 (filter (is_due D) (repetition_schedules (db s)))
                          else filter (is_due D) (repetition_schedules (db s))) = sel"
    unfolding sel_def w by (auto split: option.splits intro: filter_cong)
  have due: "due = unique_loop (sort_key due_order sel) [] {}"
    unfolding assms(2) get_due_repetitions_def Let_def assms(1) [symmetric] sel ..
  have srt: "sorted (map due_order ([] @ sort_key due_order sel))" by simp
  have a: "\<forall>r \<in> set due. r \<in> set (repetition_schedules (db s)) \<and> wanted r"
    using unique_loop_subset [of "sort_key due_order sel" "[]" "{}"]
    unfolding due sel_def by auto
  have b: "\<forall>r \<in> set (repetition_schedules (db s)). wanted r \<longrightarrow>
            (\<exists>q \<in> set due. rs_material_id q = rs_material_id r \<and> order q \<le> order r)"
  proof (intro ballI impI)
    fix r assume "r \<in> set (repetition_schedules (db s))" "wanted r"
    then have "r \<in> set ([] @ sort_key due_order sel)" by (simp add: sel_def)
    from unique_loop_first [OF _ srt this, of "{}"]
    show "\<exists>q \<in> set due. rs_material_id q = rs_material_id r \<and> order q \<le> order r"
      unfolding due o by simp
  qed
  have c: "sorted (map order due)"
    unfolding due o by (rule unique_loop_sorted [OF srt])
  have d: "distinct (map rs_material_id due)"
    unfolding due by (rule unique_loop_distinct) simp_all
  from a b c d show ?thesis by blast
qed

lemma due_fixture_value:
  "get_due_repetitions svc_fixture (store_of due_fixture) None None =
     [sched_row 3 10 7 739260 ''day_3'' 4 False, sched_row 4 11 7 739261 ''immediate'' 0 False]"
  by (simp add: get_due_repetitions_def svc_fixture_def store_of_def due_fixture_def
      is_due_def intraday_types_def long_term_types_def sched_row_def due_order_def
      datetime_key_def naive_time_def Let_def sort_key_def insort_key.simps)


theorem due_repetitions_characterised_witness:
  "get_due_repetitions svc_fixture (store_of due_fixture) None None =
     [sched_row 3 10 7 739260 ''day_3'' 4 False, sched_row 4 11 7 739261 ''immediate'' 0 False] \<and>
   distinct (map rs_material_id
     (get_due_repetitions svc_fixture (store_of due_fixture) None None)) \<and>
   (\<exists>q \<in> set (get_due_repetitions svc_fixture (store_of due_fixture) None None).
      rs_material_id q = 10 \<and> rs_scheduled_date q \<le> 739261)"
proof -
  have today: "(739261::int) = (case None of None \<Rightarrow> today svc_fixture | Some d \<Rightarrow> d)"
    by (simp add: svc_fixture_def)
  note t = due_repetitions_characterised [OF today refl refl refl,
      of "store_of due_fixture" None]
  from t have "distinct (map rs_material_id
     (get_due_repetitions svc_fixture (store_of due_fixture) None None))" by blast
  then show ?thesis
    by (simp add: due_fixture_value sched_row_def)
qed

section \<open>Completion\<close>

lemma scalar_none: "(\<And>x. x \<in> set xs \<Longrightarrow> \<not> P x) \<Longrightarrow> scalar_one_or_none (filter P xs) = Inr None"
proof -
  assume "\<And>x. x \<in> set xs \<Longrightarrow> \<not> P x"
  then have "filter P xs = []" by (simp add: filter_empty_conv)
  then show ?thesis by simp
qed


lemma scalar_length_le_1:
  "length xs \<le> 1 \<Longrightarrow> scalar_one_or_none xs = Inr (case xs of [] \<Rightarrow> None | x # _ \<Rightarrow> Some x)"
  by (cases xs rule: scalar_one_or_none.cases) simp_all


lemma commit_simps [simp]:
  "db (commit s) = db s" "committed (commit s) = committed s @ [db s]"
  by (simp_all add: commit_def)

lemma update_user_statistics_cases:
  obtains (raise) "update_user_statistics env s u a b c = (Inl MultipleResultsFound, s)"
  | (ok) st n where
      "update_user_statistics env s u a b c =
         (Inr (), commit (s\<lparr>db := (db s)\<lparr>statistics := st, next_statistics_id := n\<rparr>\<rparr>))"
proof (cases "filter (\<lambda>r. st_user_id r = u \<and> st_date r = today env) (statistics (db s))"
    rule: scalar_one_or_none.cases)
  case 1
  then have "update_user_statistics env s u a b c =
         (Inr (), commit (s\<lparr>db := (db s)\<lparr>statistics := statistics (db s) @
             [\<lparr>st_id = next_statistics_id (db s), st_user_id = u, st_date = today env,
               st_successful_repetitions = b, st_failed_repetitions = c,
               st_total_materials_added = a, st_updated_at = utcnow env\<rparr>],
           next_statistics_id := next_statistics_id (db s) + 1\<rparr>\<rparr>))"
    by (simp add: update_user_statistics_def add_statistics_def)
  then show ?thesis by (rule ok)
next
  case (2 x)
  then have "update_user_statistics env s u a b c =
         (Inr (), commit (s\<lparr>db := (db s)\<lparr>statistics :=
             map (\<lambda>r. if st_id r = st_id x
                       then r\<lparr>st_total_materials_added := st_total_materials_added r + a,
                              st_successful_repetitions := st_successful_repetitions r + b,
                              st_failed_repetitions := st_failed_repetitions r + c,
                              st_updated_at := utcnow env\<rparr>
                       else r) (statistics (db s)),
           next_statistics_id := next_statistics_id (db s)\<rparr>\<rparr>))"
    by (simp add: update_user_statistics_def update_statistics_def)
  then show ?thesis by (rule ok)
next
  case (3 x y zs)
  then have "update_user_statistics env s u a b c = (Inl MultipleResultsFound, s)"
    by (simp add: update_user_statistics_def)
  then show ?thesis by (rule raise)
qed

lemma filter_map_same:
  "(\<And>x. P (f x) = P x) \<Longrightarrow> filter P (map f xs) = map f (filter P xs)"
  by (induction xs) simp_all

lemma update_user_statistics_unique:
  assumes "statistics_unique (today env) u (db s)"
  obtains st n where
      "update_user_statistics env s u a b c =
         (Inr (), commit (s\<lparr>db := (db s)\<lparr>statistics := st, next_statistics_id := n\<rparr>\<rparr>))"
      "statistics_unique (today env) u ((db s)\<lparr>statistics := st, next_statistics_id := n\<rparr>)"
proof (cases "filter (\<lambda>r. st_user_id r = u \<and> st_date r = today env) (statistics (db s))"
    rule: scalar_one_or_none.cases)
  case 1
  then have "update_user_statistics env s u a b c =
         (Inr (), commit (s\<lparr>db := (db s)\<lparr>statistics := statistics (db s) @
             [\<lparr>st_id = next_statistics_id (db s), st_user_id = u, st_date = today env,
               st_successful_repetitions = b, st_failed_repetitions = c,
               st_total_materials_added = a, st_updated_at = utcnow env\<rparr>],
           next_statistics_id := next_statistics_id (db s) + 1\<rparr>\<rparr>))"
    by (simp add: update_user_statistics_def add_statistics_def)
  moreover have "statistics_unique (today env) u ((db s)\<lparr>statistics := statistics (db s) @
             [\<lparr>st_id = next_statistics_id (db s), st_user_id = u, st_date = today env,
               st_successful_repetitions = b, st_failed_repetitions = c,
               st_total_materials_added = a, st_updated_at = utcnow env\<rparr>],
           next_statistics_id := next_statistics_id (db s) + 1\<rparr>)"
    using 1 by (simp add: statistics_unique_def)
  ultimately show ?thesis by (rule that)
next
  case (2 x)
  define f :: "user_statistics \<Rightarrow> user_statistics" where "f = (\<lambda>r. if st_id r = st_id x
                       then r\<lparr>st_total_materials_added := st_total_materials_added r + a,
                              st_successful_repetitions := st_successful_repetitions r + b,
                              st_failed_repetitions := st_failed_repetitions r + c,
                              st_updated_at := utcnow env\<rparr>
                       else r)"
  have "update_user_statistics env s u a b c =
         (Inr (), commit (s\<lparr>db := (db s)\<lparr>statistics := map f (statistics (db s)),
           next_statistics_id := next_statistics_id (db s)\<rparr>\<rparr>))"
    using 2 by (simp add: update_user_statistics_def update_statistics_def f_def)
  moreover have "filter (\<lambda>r. st_user_id r = u \<and> st_date r = today env) (map f (statistics (db s)))
      = map f (filter (\<lambda>r. st_user_id r = u \<and> st_date r = today env) (statistics (db s)))"
    by (rule filter_map_same) (simp add: f_def)
  then have "statistics_unique (today env) u ((db s)\<lparr>statistics := map f (statistics (db s)),
           next_statistics_id := next_statistics_id (db s)\<rparr>)"
    using assms by (simp add: statistics_unique_def)
  ultimately show ?thesis by (rule that)
next
  case (3 x y zs)
  then show ?thesis using assms by (simp add: statistics_unique_def)
qed





text \<open>
  The ways the follow-up of a success can end: nothing done, the material touched, or the
  new row added after the delete; and the log grows by at most the final state.
\<close>

lemma create_next_on_success_shape:
  assumes "create_next_repetition_on_success env s cs = (res, s')"
  shows "(db s' = db s \<or> (\<exists>i f. db s' = update_material i f (db s)) \<or>
          (\<exists>i f r. db s' = add_schedule r (db (delete_incomplete_repetitions
               (s\<lparr>db := update_material i f (db s)\<rparr>) (rs_user_id cs) (rs_material_id cs))))) \<and>
         (committed s' = committed s \<or> committed s' = committed s @ [db s'])"
proof (cases "get_material s (rs_material_id cs)")
  case (Inl e)
  then show ?thesis using assms by (auto simp: create_next_repetition_on_success_def)
next
  case (Inr mo)
  show ?thesis
  proof (cases mo)
    case None
    then show ?thesis using assms Inr by (auto simp: create_next_repetition_on_success_def)
  next
    case (Some material)
    show ?thesis
    proof (cases "get_user s (rs_user_id cs)")
      case (Inl e)
      then show ?thesis using assms Inr Some
        by (auto simp: create_next_repetition_on_success_def)
    next
      case usr: (Inr usr)
      define s1 where "s1 = s\<lparr>db := update_material (sm_id material)
                        (\<lambda>m. m\<lparr>sm_last_success_at := Some (utcnow env),
                               sm_current_stage := rs_current_stage cs + 1\<rparr>) (db s)\<rparr>"
      show ?thesis
      proof (cases "calculate_next_repetition env (sm_created_at material)
                        (rs_current_stage cs) (timezone_of env usr) (Some (utcnow env))")
        case (Inl e)
        then have "s' = s1"
          using assms Inr Some usr
          by (simp add: create_next_repetition_on_success_def Let_def s1_def)
        then have "db s' = update_material (sm_id material)
                        (\<lambda>m. m\<lparr>sm_last_success_at := Some (utcnow env),
                               sm_current_stage := rs_current_stage cs + 1\<rparr>) (db s)"
          "committed s' = committed s"
          by (simp_all add: s1_def)
        then show ?thesis by blast
      next
        case calc: (Inr p)
        obtain due ns where p: "p = (due, ns)" by (cases p)
        define row where "row = new_schedule_row env (rs_material_id cs) (rs_user_id cs)
            (dt_date due) (get_stage_name ns) ns due"
        define s2 where "s2 = delete_incomplete_repetitions s1 (rs_user_id cs) (rs_material_id cs)"
        define s3 where "s3 = s2\<lparr>db := add_schedule row (db s2)\<rparr>"
        have "s' = (if storable row then commit s3 else s3)"
          using assms Inr Some usr calc p
          by (simp add: create_next_repetition_on_success_def Let_def s1_def [symmetric]
              row_def [symmetric] s2_def [symmetric] s3_def [symmetric] split: if_splits)
        then have "db s' = add_schedule row (db s2)"
          "committed s' = committed s \<or> committed s' = committed s @ [db s']"
          by (auto simp: s3_def s2_def s1_def delete_incomplete_repetitions_def)
        then show ?thesis unfolding s2_def s1_def by blast
      qed
    qed
  qed
qed


lemma mark_failed_shape:
  assumes "mark_failed env s u m t = (res, s')"
  shows "(db s' = db s \<or>
          (\<exists>i f r. db s' = update_material i f
               (add_schedule r (db (delete_incomplete_repetitions s u m)))) \<or>
          (\<exists>i f r st n. db s' = (update_material i f
               (add_schedule r (db (delete_incomplete_repetitions s u m))))
               \<lparr>statistics := st, next_statistics_id := n\<rparr>)) \<and>
         (committed s' = committed s \<or> committed s' = committed s @ [db s', db s'])"
proof (cases "get_material s m")
  case (Inl e)
  then show ?thesis using assms by (auto simp: mark_failed_def Let_def)
next
  case (Inr mo)
  show ?thesis
  proof (cases mo)
    case None
    then show ?thesis using assms Inr by (auto simp: mark_failed_def Let_def)
  next
    case (Some material)
    show ?thesis
    proof (cases "get_user s u")
      case (Inl e)
      then show ?thesis using assms Inr Some by (auto simp: mark_failed_def Let_def)
    next
      case usr: (Inr usr)
      show ?thesis
      proof (cases "calculate_failed_repetition env (case t of None \<Rightarrow> utcnow env | Some t \<Rightarrow> t)
                      (sm_current_stage material) (timezone_of env usr)")
        case (Inl e)
        then show ?thesis using assms Inr Some usr by (auto simp: mark_failed_def Let_def)
      next
        case calc: (Inr p)
        obtain due ns where p: "p = (due, ns)" by (cases p)
        define row where "row = new_schedule_row env m u (dt_date due) (get_stage_name ns) ns due"
        define d3 where "d3 = update_material (sm_id material)
            (\<lambda>m. m\<lparr>sm_current_stage := ns\<rparr>)
            (add_schedule row (db (delete_incomplete_repetitions s u m)))"
        define s3 where "s3 = (delete_incomplete_repetitions s u m)\<lparr>db := d3\<rparr>"
        have c3: "committed s3 = committed s" "db s3 = d3"
          by (simp_all add: s3_def delete_incomplete_repetitions_def)
        have run: "mark_failed env s u m t =
          (if \<not> storable row then (Inl DataError, s3)
           else case update_user_statistics env s3 u 0 0 1 of
                  (Inl e, s4) \<Rightarrow> (Inl e, s4) | (Inr x, s4) \<Rightarrow> (Inr True, commit s4))"
          using Inr Some usr calc p
          by (simp add: mark_failed_def Let_def row_def d3_def s3_def)
        show ?thesis
        proof (cases "storable row")
          case False
          then have "s' = s3" using assms run by simp
          then show ?thesis using c3 unfolding d3_def by blast
        next
          case True
          show ?thesis
          proof (rule update_user_statistics_cases [of env s3 u 0 0 1])
            assume "update_user_statistics env s3 u 0 0 1 = (Inl MultipleResultsFound, s3)"
            then have "s' = s3" using assms run True by simp
            then show ?thesis using c3 unfolding d3_def by blast
          next
            fix st n
            assume "update_user_statistics env s3 u 0 0 1 =
              (Inr (), commit (s3\<lparr>db := (db s3)\<lparr>statistics := st, next_statistics_id := n\<rparr>\<rparr>))"
            then have "s' = commit (commit (s3\<lparr>db := (db s3)\<lparr>statistics := st,
                next_statistics_id := n\<rparr>\<rparr>))"
              using assms run True by simp
            then have "db s' = d3\<lparr>statistics := st, next_statistics_id := n\<rparr>"
              "committed s' = committed s @ [db s', db s']"
              using c3 by simp_all
            then show ?thesis unfolding d3_def by blast
          qed
        qed
      qed
    qed
  qed
qed


text \<open>The session after the first half of \<open>complete_repetition\<close>, before the statistics.\<close>

lemma complete_repetition_found:
  assumes "filter (\<lambda>r. rs_id r = schedule_id \<and> rs_user_id r = user_id \<and> \<not> rs_is_completed r)
             (repetition_schedules (db s)) = [found]"
    and "s2 = s\<lparr>db := add_result
           \<lparr>rr_id = 0, rr_schedule_id = schedule_id, rr_user_id = user_id,
            rr_material_id = rs_material_id found, rr_was_successful = was_successful,
            rr_completed_at = utcnow env\<rparr>
           (update_schedule (rs_id found)
              (\<lambda>r. r\<lparr>rs_is_completed := True, rs_completed_at := Some (utcnow env)\<rparr>) (db s))\<rparr>"
    and "marked = found\<lparr>rs_is_completed := True, rs_completed_at := Some (utcnow env)\<rparr>"
    and "update_user_statistics env s2 user_id 0 (if was_successful then 1 else 0)
           (if was_successful then 0 else 1) = (r3, s3)"
  shows "complete_repetition env s schedule_id user_id was_successful =
    (case r3 of
       Inl e \<Rightarrow> (Inl e, s3)
     | Inr u \<Rightarrow>
         if was_successful
         then (case create_next_repetition_on_success env (commit s3) marked of
                 (Inl e, s5) \<Rightarrow> (Inl e, s5) | (Inr nxt, s5) \<Rightarrow> (Inr True, s5))
         else (case mark_failed env (commit s3) user_id (rs_material_id found)
                      (Some (utcnow env)) of
                 (Inl e, s5) \<Rightarrow> (Inl e, s5) | (Inr ok, s5) \<Rightarrow> (Inr True, s5)))"
proof -
  have "found \<in> set (filter (\<lambda>r. rs_id r = schedule_id \<and> rs_user_id r = user_id \<and>
                \<not> rs_is_completed r) (repetition_schedules (db s)))"
    unfolding assms(1) by simp
  then have u: "rs_user_id found = user_id" by simp
  show ?thesis
  proof (cases was_successful)
    case True
    then show ?thesis
      using assms(4) unfolding complete_repetition_def assms(1) assms(2) assms(3)
      by (simp add: Let_def split: sum.splits)
  next
    case False
    then show ?thesis
      using assms(4) u unfolding complete_repetition_def assms(1) assms(2) assms(3)
      by (simp add: Let_def create_next_repetition_on_failure_def split: sum.splits)
  qed
qed






section \<open>The expiry sweep\<close>

lemma update_user_statistics_all_unique:
  assumes "\<forall>v. statistics_unique (today env) v (db s)"
  obtains st n where
      "update_user_statistics env s u a b c =
         (Inr (), commit (s\<lparr>db := (db s)\<lparr>statistics := st, next_statistics_id := n\<rparr>\<rparr>))"
      "\<forall>v. statistics_unique (today env) v ((db s)\<lparr>statistics := st, next_statistics_id := n\<rparr>)"
proof (cases "filter (\<lambda>r. st_user_id r = u \<and> st_date r = today env) (statistics (db s))"
    rule: scalar_one_or_none.cases)
  case 1
  then have "update_user_statistics env s u a b c =
         (Inr (), commit (s\<lparr>db := (db s)\<lparr>statistics := statistics (db s) @
             [\<lparr>st_id = next_statistics_id (db s), st_user_id = u, st_date = today env,
               st_successful_repetitions = b, st_failed_repetitions = c,
               st_total_materials_added = a, st_updated_at = utcnow env\<rparr>],
           next_statistics_id := next_statistics_id (db s) + 1\<rparr>\<rparr>))"
    by (simp add: update_user_statistics_def add_statistics_def)
  moreover have "\<forall>v. statistics_unique (today env) v ((db s)\<lparr>statistics := statistics (db s) @
             [\<lparr>st_id = next_statistics_id (db s), st_user_id = u, st_date = today env,
               st_successful_repetitions = b, st_failed_repetitions = c,
               st_total_materials_added = a, st_updated_at = utcnow env\<rparr>],
           next_statistics_id := next_statistics_id (db s) + 1\<rparr>)"
    using 1 assms by (auto simp: statistics_unique_def)
  ultimately show ?thesis by (rule that)
next
  case (2 x)
  define f :: "user_statistics \<Rightarrow> user_statistics" where "f = (\<lambda>r. if st_id r = st_id x
                       then r\<lparr>st_total_materials_added := st_total_materials_added r + a,
                              st_successful_repetitions := st_successful_repetitions r + b,
                              st_failed_repetitions := st_failed_repetitions r + c,
                              st_updated_at := utcnow env\<rparr>
                       else r)"
  have "update_user_statistics env s u a b c =
         (Inr (), commit (s\<lparr>db := (db s)\<lparr>statistics := map f (statistics (db s)),
           next_statistics_id := next_statistics_id (db s)\<rparr>\<rparr>))"
    using 2 by (simp add: update_user_statistics_def update_statistics_def f_def)
  moreover have "\<And>v. filter (\<lambda>r. st_user_id r = v \<and> st_date r = today env) (map f (statistics (db s)))
      = map f (filter (\<lambda>r. st_user_id r = v \<and> st_date r = today env) (statistics (db s)))"
    by (rule filter_map_same) (simp add: f_def)
  then have "\<forall>v. statistics_unique (today env) v ((db s)\<lparr>statistics := map f (statistics (db s)),
           next_statistics_id := next_statistics_id (db s)\<rparr>)"
    using assms by (simp add: statistics_unique_def)
  ultimately show ?thesis by (rule that)
next
  case (3 x y zs)
  then show ?thesis using assms [rule_format, of u] by (simp add: statistics_unique_def)
qed

text \<open>What a result row records, without its key.\<close>

lemma expire_loop_run:
  assumes "\<forall>v. statistics_unique (today env) v (db s)"
  shows "\<exists>s'. expire_loop env xs count s = (Inr (count + int (length xs)), s') \<and>
     repetition_schedules (db s') =
       map (\<lambda>r. if rs_id r \<in> rs_id ` set xs
                 then r\<lparr>rs_is_completed := True, rs_completed_at := Some (utcnow env)\<rparr> else r)
           (repetition_schedules (db s)) \<and>
     map (\<lambda>x. (rr_schedule_id x, rr_user_id x, rr_material_id x, rr_was_successful x))
         (repetition_results (db s')) =
       map (\<lambda>x. (rr_schedule_id x, rr_user_id x, rr_material_id x, rr_was_successful x))
         (repetition_results (db s)) @
       map (\<lambda>r. (rs_id r, rs_user_id r, rs_material_id r, False)) xs \<and>
     study_materials (db s') = study_materials (db s) \<and>
     users (db s') = users (db s) \<and>
     next_schedule_id (db s') = next_schedule_id (db s) \<and>
     (\<forall>v. statistics_unique (today env) v (db s'))"
  using assms
proof (induction xs arbitrary: count s)
  case Nil
  then show ?case by simp
next
  case (Cons x xs)
  define mark :: "repetition_schedule \<Rightarrow> repetition_schedule"
    where "mark = (\<lambda>r. r\<lparr>rs_is_completed := True, rs_completed_at := Some (utcnow env)\<rparr>)"
  define s2 where "s2 = s\<lparr>db := add_result
      \<lparr>rr_id = 0, rr_schedule_id = rs_id x, rr_user_id = rs_user_id x,
       rr_material_id = rs_material_id x, rr_was_successful = False,
       rr_completed_at = utcnow env\<rparr> (update_schedule (rs_id x) mark (db s))\<rparr>"
  have u2: "\<forall>v. statistics_unique (today env) v (db s2)"
    using Cons.prems by (simp add: s2_def statistics_unique_def add_result_def update_schedule_def)
  from update_user_statistics_all_unique [OF u2, of "rs_user_id x" 0 0 1]
  obtain st n where
    st: "update_user_statistics env s2 (rs_user_id x) 0 0 1 =
         (Inr (), commit (s2\<lparr>db := (db s2)\<lparr>statistics := st, next_statistics_id := n\<rparr>\<rparr>))"
    and u3: "\<forall>v. statistics_unique (today env) v ((db s2)\<lparr>statistics := st, next_statistics_id := n\<rparr>)"
    by blast
  define s3 where "s3 = commit (s2\<lparr>db := (db s2)\<lparr>statistics := st, next_statistics_id := n\<rparr>\<rparr>)"
  have step: "expire_loop env (x # xs) count s = expire_loop env xs (count + 1) s3"
    using st by (simp add: Let_def s2_def [symmetric] mark_def [symmetric] s3_def)
  have u3': "\<forall>v. statistics_unique (today env) v (db s3)"
    using u3 by (simp add: s3_def)
  from Cons.IH [OF u3', of "count + 1"]
  obtain s' where s': "expire_loop env xs (count + 1) s3 = (Inr (count + 1 + int (length xs)), s')"
    "repetition_schedules (db s') =
       map (\<lambda>r. if rs_id r \<in> rs_id ` set xs then mark r else r) (repetition_schedules (db s3))"
    "map (\<lambda>x. (rr_schedule_id x, rr_user_id x, rr_material_id x, rr_was_successful x))
         (repetition_results (db s')) =
       map (\<lambda>x. (rr_schedule_id x, rr_user_id x, rr_material_id x, rr_was_successful x))
         (repetition_results (db s3)) @
       map (\<lambda>r. (rs_id r, rs_user_id r, rs_material_id r, False)) xs"
    "study_materials (db s') = study_materials (db s3)"
    "users (db s') = users (db s3)"
    "next_schedule_id (db s') = next_schedule_id (db s3)"
    "\<forall>v. statistics_unique (today env) v (db s')"
    unfolding mark_def by blast
  have rows3: "repetition_schedules (db s3) =
      map (\<lambda>r. if rs_id r = rs_id x then mark r else r) (repetition_schedules (db s))"
    by (simp add: s3_def s2_def add_result_def update_schedule_def)
  have rows: "repetition_schedules (db s') =
       map (\<lambda>r. if rs_id r \<in> rs_id ` set (x # xs) then mark r else r)
           (repetition_schedules (db s))"
    unfolding s'(2) rows3 by (auto simp: mark_def)
  have res3: "repetition_results (db s3) = repetition_results (db s) @
      [\<lparr>rr_id = next_result_id (db s), rr_schedule_id = rs_id x, rr_user_id = rs_user_id x,
        rr_material_id = rs_material_id x, rr_was_successful = False,
        rr_completed_at = utcnow env\<rparr>]"
    by (simp add: s3_def s2_def add_result_def update_schedule_def)
  have other: "study_materials (db s3) = study_materials (db s)" "users (db s3) = users (db s)"
    "next_schedule_id (db s3) = next_schedule_id (db s)"
    by (simp_all add: s3_def s2_def add_result_def update_schedule_def)
  show ?case
    unfolding step
    using s'(1) rows s'(3) s'(4-7) other by (simp add: res3 mark_def)
qed


text \<open>
  Claim C8. With unique schedule keys and at most one statistics row per user and day,
  the sweep returns the number of incomplete intraday rows scheduled before today; the
  schedule table afterwards is the old one with exactly those rows marked completed
  (every other row is as it was and no row is added); one result row with
  \<open>was_successful = False\<close> is appended for each of them; the materials are untouched.
\<close>

theorem expired_intraday_are_swept:
  assumes "distinct (map rs_id (repetition_schedules (db s)))"
    and "\<forall>v. statistics_unique (today env) v (db s)"
    and "expired = (\<lambda>r. \<not> rs_is_completed r \<and>
           rs_repetition_type r \<in> {''immediate'', ''short_term'', ''evening''} \<and>
           rs_scheduled_date r < today env)"
  shows "\<exists>s'. auto_complete_expired_intraday_repetitions env s =
            (Inr (int (length (filter expired (repetition_schedules (db s))))), s') \<and>
     repetition_schedules (db s') =
       map (\<lambda>r. if expired r
                 then r\<lparr>rs_is_completed := True, rs_completed_at := Some (utcnow env)\<rparr> else r)
           (repetition_schedules (db s)) \<and>
     map (\<lambda>x. (rr_schedule_id x, rr_user_id x, rr_material_id x, rr_was_successful x))
         (repetition_results (db s')) =
       map (\<lambda>x. (rr_schedule_id x, rr_user_id x, rr_material_id x, rr_was_successful x))
         (repetition_results (db s)) @
       map (\<lambda>r. (rs_id r, rs_user_id r, rs_material_id r, False))
         (filter expired (repetition_schedules (db s))) \<and>
     study_materials (db s') = study_materials (db s) \<and>
     next_schedule_id (db s') = next_schedule_id (db s)"
proof -
  have e: "expired = is_expired_intraday (today env)"
    unfolding assms(3) is_expired_intraday_def intraday_types_def by auto
  define xs where "xs = filter expired (repetition_schedules (db s))"
  from expire_loop_run [OF assms(2), of xs 0]
  obtain s1 where s1: "expire_loop env xs 0 s = (Inr (int (length xs)), s1)"
    "repetition_schedules (db s1) =
       map (\<lambda>r. if rs_id r \<in> rs_id ` set xs
                 then r\<lparr>rs_is_completed := True, rs_completed_at := Some (utcnow env)\<rparr> else r)
           (repetition_schedules (db s))"
    "map (\<lambda>x. (rr_schedule_id x, rr_user_id x, rr_material_id x, rr_was_successful x))
         (repetition_results (db s1)) =
       map (\<lambda>x. (rr_schedule_id x, rr_user_id x, rr_material_id x, rr_was_successful x))
         (repetition_results (db s)) @
       map (\<lambda>r. (rs_id r, rs_user_id r, rs_material_id r, False)) xs"
    "study_materials (db s1) = study_materials (db s)"
    "next_schedule_id (db s1) = next_schedule_id (db s)"
    by auto
  have same: "\<And>r. r \<in> set (repetition_schedules (db s)) \<Longrightarrow>
      rs_id r \<in> rs_id ` set xs \<longleftrightarrow> expired r"
  proof
    fix r assume r: "r \<in> set (repetition_schedules (db s))" and "rs_id r \<in> rs_id ` set xs"
    then obtain q where q: "q \<in> set (repetition_schedules (db s))" "expired q" "rs_id q = rs_id r"
      by (auto simp: xs_def)
    from assms(1) r q(1,3) have "q = r" by (auto simp: distinct_map inj_on_def)
    with q(2) show "expired r" by simp
  next
    fix r assume "r \<in> set (repetition_schedules (db s))" "expired r"
    then show "rs_id r \<in> rs_id ` set xs" by (auto simp: xs_def)
  qed
  have rows: "repetition_schedules (db s1) =
       map (\<lambda>r. if expired r
                 then r\<lparr>rs_is_completed := True, rs_completed_at := Some (utcnow env)\<rparr> else r)
           (repetition_schedules (db s))"
    unfolding s1(2) by (rule map_cong) (simp_all add: same)
  define s' where "s' = (if int (length xs) > 0 then commit s1 else s1)"
  have "auto_complete_expired_intraday_repetitions env s = (Inr (int (length xs)), s')"
    using s1(1) unfolding auto_complete_expired_intraday_repetitions_def Let_def e [symmetric]
      xs_def [symmetric] s'_def by simp
  moreover have "db s' = db s1" by (simp add: s'_def)
  ultimately show ?thesis
    using rows s1(3,4,5) unfolding xs_def by auto
qed

lemma no_statistics_unique: "statistics d = [] \<Longrightarrow> statistics_unique t v d"
  by (simp add: statistics_unique_def)

theorem expired_intraday_are_swept_witness:
  "\<exists>s'. auto_complete_expired_intraday_repetitions svc_fixture (store_of due_fixture) = (Inr 1, s') \<and>
     repetition_schedules (db s') =
       [sched_row 1 10 7 739261 ''day_1'' 3 False,
        (sched_row 2 10 7 739255 ''evening'' 2 True)
          \<lparr>rs_completed_at := Some (naive_time 739261 12 0)\<rparr>,
        sched_row 3 10 7 739260 ''day_3'' 4 False,
        sched_row 4 11 7 739261 ''immediate'' 0 False,
        sched_row 5 12 7 739261 ''day_7'' 5 True] \<and>
     map (\<lambda>x. (rr_schedule_id x, rr_user_id x, rr_material_id x, rr_was_successful x))
         (repetition_results (db s')) = [(2, 7, 10, False)]"
proof -
  have d: "distinct (map rs_id (repetition_schedules (db (store_of due_fixture))))"
    by (simp add: store_of_def due_fixture_def sched_row_def)
  have u: "\<forall>v. statistics_unique (today svc_fixture) v (db (store_of due_fixture))"
    by (simp add: no_statistics_unique store_of_def)
  define e :: "repetition_schedule \<Rightarrow> bool" where "e = (\<lambda>r. \<not> rs_is_completed r \<and>
           rs_repetition_type r \<in> {''immediate'', ''short_term'', ''evening''} \<and>
           rs_scheduled_date r < today svc_fixture)"
  have f: "filter e (repetition_schedules (db (store_of due_fixture))) =
             [sched_row 2 10 7 739255 ''evening'' 2 False]"
    by (simp add: e_def store_of_def due_fixture_def sched_row_def svc_fixture_def)
  have m: "map (\<lambda>r. if e r
                 then r\<lparr>rs_is_completed := True, rs_completed_at := Some (utcnow svc_fixture)\<rparr>
                 else r) (repetition_schedules (db (store_of due_fixture))) =
       [sched_row 1 10 7 739261 ''day_1'' 3 False,
        (sched_row 2 10 7 739255 ''evening'' 2 True)
          \<lparr>rs_completed_at := Some (naive_time 739261 12 0)\<rparr>,
        sched_row 3 10 7 739260 ''day_3'' 4 False,
        sched_row 4 11 7 739261 ''immediate'' 0 False,
        sched_row 5 12 7 739261 ''day_7'' 5 True]"
    by (simp add: e_def store_of_def due_fixture_def sched_row_def svc_fixture_def)
  have r: "repetition_results (db (store_of due_fixture)) = []"
    by (simp add: store_of_def)
  from expired_intraday_are_swept [OF d u e_def]
  show ?thesis
    unfolding f m r by (auto simp: sched_row_def)
qed

section \<open>Creating the initial entries\<close>

lemma stage0_aware:
  assumes "calculate_next_repetition env created_at 0 timezone None = Inr (due, n)"
    and "dt_tzinfo created_at = None"
  shows "dt_tzinfo due \<noteq> None"
proof -
  obtain tz where tz: "get_tz env timezone = Inr tz"
    using assms(1) by (cases "get_tz env timezone") (simp_all add: calculate_next_repetition_def)
  have loc: "localize env tz created_at = Inr (created_at\<lparr>dt_tzinfo := Some tz\<rparr>)"
    using assms(2) by (simp add: localize_iff)
  have "datetime_add_us (created_at\<lparr>dt_tzinfo := Some tz\<rparr>) (timedelta_minutes 20) = Inr due"
    using assms(1) loc unfolding calculate_next_repetition_def tz
    by (auto split: sum.splits)
  from datetime_add_us_valid(2) [OF this] show ?thesis by simp
qed

text \<open>
  Claim C9, as the code behaves. Whatever the arguments, \<open>create_initial_repetitions\<close>
  raises and commits nothing; when both calls of the calculator succeed, what it raises
  is the driver's \<open>DataError\<close>: the \<open>short_term\<close> row (and for an aware creation time
  already the \<open>immediate\<close> row) carries a datetime with a zone, which the column
  \<open>scheduled_datetime\<close> does not take. The three rows the claim describes are built
  but never stored.
\<close>

theorem initial_repetitions_are_not_stored:
  "(\<exists>e s'. create_initial_repetitions env s material_id user_id material_created_at
              user_timezone = (Inl e, s') \<and> committed s' = committed s) \<and>
   (\<forall>tzname due0 n0 due1 n1.
      tzname = (case user_timezone of
                  None \<Rightarrow> default_timezone env
                | Some t \<Rightarrow> if t = [] then default_timezone env else t) \<and>
      calculate_next_repetition env material_created_at 0 tzname None = Inr (due0, n0) \<and>
      calculate_next_repetition env material_created_at 1 tzname None = Inr (due1, n1) \<longrightarrow>
      fst (create_initial_repetitions env s material_id user_id material_created_at
             user_timezone) = Inl DataError)"
proof -
  define tzname where "tzname = (case user_timezone of
                  None \<Rightarrow> default_timezone env
                | Some t \<Rightarrow> if t = [] then default_timezone env else t)"
  define s1 where "s1 = delete_incomplete_repetitions s user_id material_id"
  have c1: "committed s1 = committed s"
    by (simp add: s1_def delete_incomplete_repetitions_def)
  have raise: "\<exists>d. create_initial_repetitions env s material_id user_id material_created_at
              user_timezone = (Inl DataError, s1\<lparr>db := d\<rparr>)"
    if c0: "calculate_next_repetition env material_created_at 0 tzname None = Inr (due0, n0)"
    and c1: "calculate_next_repetition env material_created_at 1 tzname None = Inr (due1, n1)"
    for due0 n0 due1 n1
  proof -
    have "\<not> (storable (new_schedule_row env material_id user_id (dt_date material_created_at)
               ''immediate'' 0 material_created_at) \<and>
             storable (new_schedule_row env material_id user_id (dt_date due0)
               ''short_term'' 1 due0))"
    proof (cases "dt_tzinfo material_created_at = None")
      case True
      from stage0_aware [OF c0 True] show ?thesis
        by (simp add: storable_def new_schedule_row_def)
    next
      case False
      then show ?thesis by (simp add: storable_def new_schedule_row_def)
    qed
    then show ?thesis
      unfolding create_initial_repetitions_def tzname_def [symmetric] Let_def s1_def [symmetric]
      by (auto simp: c0 c1)
  qed
  have all: "\<exists>e s'. create_initial_repetitions env s material_id user_id material_created_at
              user_timezone = (Inl e, s') \<and> committed s' = committed s"
  proof (cases "calculate_next_repetition env material_created_at 0 tzname None")
    case (Inl e)
    then have "create_initial_repetitions env s material_id user_id material_created_at
              user_timezone = (Inl e, s1)"
      unfolding create_initial_repetitions_def tzname_def [symmetric] Let_def s1_def [symmetric]
      by simp
    then show ?thesis using c1 by blast
  next
    case c0: (Inr p0)
    obtain due0 n0 where p0: "p0 = (due0, n0)" by (cases p0)
    show ?thesis
    proof (cases "calculate_next_repetition env material_created_at 1 tzname None")
      case (Inl e)
      then have "create_initial_repetitions env s material_id user_id material_created_at
              user_timezone = (Inl e, s1)"
        unfolding create_initial_repetitions_def tzname_def [symmetric] Let_def s1_def [symmetric]
        by (simp add: c0 p0)
      then show ?thesis using c1 by blast
    next
      case (Inr p1)
      obtain due1 n1 where p1: "p1 = (due1, n1)" by (cases p1)
      from raise [OF c0 [unfolded p0] Inr [unfolded p1]]
      obtain d where "create_initial_repetitions env s material_id user_id material_created_at
              user_timezone = (Inl DataError, s1\<lparr>db := d\<rparr>)" by blast
      moreover have "committed (s1\<lparr>db := d\<rparr>) = committed s" using c1 by simp
      ultimately show ?thesis by blast
    qed
  qed
  have "\<And>due0 n0 due1 n1.
      calculate_next_repetition env material_created_at 0 tzname None = Inr (due0, n0) \<Longrightarrow>
      calculate_next_repetition env material_created_at 1 tzname None = Inr (due1, n1) \<Longrightarrow>
      fst (create_initial_repetitions env s material_id user_id material_created_at
             user_timezone) = Inl DataError"
    using raise by fastforce
  with all show ?thesis unfolding tzname_def by blast
qed

lemma naive_stage0:
  "calculate_next_repetition svc_fixture (naive_time 739252 10 0) 0 yekaterinburg None =
     Inr (local_time 739252 10 20, 1)"
  by (simp add: calculate_next_repetition_def get_tz_def localize_def attach_tz_def
      svc_fixture_def naive_time_def local_time_def datetime_add_us_def wall_us_def time_us_def
      timedelta_minutes_def US_PER_DAY_def US_PER_SECOND_def MAXORDINAL_def Let_def)

lemma naive_stage1:
  "calculate_next_repetition svc_fixture (naive_time 739252 10 0) 1 yekaterinburg None =
     Inr (local_time 739252 20 0, 2)"
  by (simp add: calculate_next_repetition_def get_tz_def localize_def attach_tz_def
      svc_fixture_def naive_time_def local_time_def datetime_le_def datetime_key_def Let_def)

text \<open>
  Scenario A of the specification, a material created at 10:00: the due times are 10:20
  and 20:00 in the zone, and the call ends in \<open>DataError\<close> with nothing committed.
\<close>

theorem initial_repetitions_are_not_stored_witness:
  "fst (create_initial_repetitions svc_fixture (store_of due_fixture) 10 7
          (naive_time 739252 10 0) None) = Inl DataError \<and>
   (\<exists>e s'. create_initial_repetitions svc_fixture (store_of due_fixture) 10 7
          (naive_time 739252 10 0) None = (Inl e, s') \<and> committed s' = [])"
proof -
  have tzname: "yekaterinburg = (case None :: string option of
                         None \<Rightarrow> default_timezone svc_fixture
                       | Some t \<Rightarrow> if t = [] then default_timezone svc_fixture else t)"
    by (simp add: svc_fixture_def)
  have c: "committed (store_of due_fixture) = []" by (simp add: store_of_def)
  from initial_repetitions_are_not_stored
    [of svc_fixture "store_of due_fixture" 10 7 "naive_time 739252 10 0" None]
    tzname naive_stage0 naive_stage1
  show ?thesis unfolding c by blast
qed

section \<open>The two transactions of a completion\<close>

lemma create_next_on_success_keeps:
  assumes "create_next_repetition_on_success env s cs = (res, s')"
    and "r \<in> set (repetition_schedules (db s))" and "rs_is_completed r"
  shows "r \<in> set (repetition_schedules (db s'))"
proof -
  note shape = create_next_on_success_shape [OF assms(1), THEN conjunct1]
  have "\<And>i f x. r \<in> set (repetition_schedules
      (add_schedule x (db (delete_incomplete_repetitions (s\<lparr>db := update_material i f (db s)\<rparr>)
         (rs_user_id cs) (rs_material_id cs)))))"
    using assms(2,3)
    by (simp add: add_schedule_def delete_incomplete_repetitions_def update_material_def)
  then show ?thesis
    using shape assms(2) by (auto simp: update_material_def)
qed

lemma mark_failed_keeps:
  assumes "mark_failed env s u m t = (res, s')"
    and "r \<in> set (repetition_schedules (db s))" and "rs_is_completed r"
  shows "r \<in> set (repetition_schedules (db s'))"
proof -
  note shape = mark_failed_shape [OF assms(1), THEN conjunct1]
  have "\<And>i f x. r \<in> set (repetition_schedules
      (update_material i f (add_schedule x (db (delete_incomplete_repetitions s u m)))))"
    using assms(2,3)
    by (simp add: add_schedule_def delete_incomplete_repetitions_def update_material_def)
  then show ?thesis
    using shape assms(2) by auto
qed

text \<open>
  The first half of \<open>complete_repetition\<close> for an entry that is found: the statistics
  commit and the commit of the method itself make the snapshot \<open>d_mid\<close> durable twice,
  and the follow-up starts from the session \<open>s4\<close>.
\<close>

lemma complete_repetition_halves:
  assumes found: "filter (\<lambda>r. rs_id r = schedule_id \<and> rs_user_id r = user_id \<and>
                             \<not> rs_is_completed r) (repetition_schedules (db s)) = [found]"
    and stats: "statistics_unique (today env) user_id (db s)"
  obtains st n d_mid s4 where
    "d_mid = (add_result
           \<lparr>rr_id = 0, rr_schedule_id = schedule_id, rr_user_id = user_id,
            rr_material_id = rs_material_id found, rr_was_successful = was_successful,
            rr_completed_at = utcnow env\<rparr>
           (update_schedule (rs_id found)
              (\<lambda>r. r\<lparr>rs_is_completed := True, rs_completed_at := Some (utcnow env)\<rparr>) (db s)))
        \<lparr>statistics := st, next_statistics_id := n\<rparr>"
    "s4 = s\<lparr>db := d_mid, committed := committed s @ [d_mid, d_mid]\<rparr>"
    "complete_repetition env s schedule_id user_id was_successful =
       (if was_successful
        then (case create_next_repetition_on_success env s4
                     (found\<lparr>rs_is_completed := True, rs_completed_at := Some (utcnow env)\<rparr>) of
                (Inl e, s5) \<Rightarrow> (Inl e, s5) | (Inr nxt, s5) \<Rightarrow> (Inr True, s5))
        else (case mark_failed env s4 user_id (rs_material_id found) (Some (utcnow env)) of
                (Inl e, s5) \<Rightarrow> (Inl e, s5) | (Inr ok, s5) \<Rightarrow> (Inr True, s5)))"
proof -
  define s2 :: session where "s2 = s\<lparr>db := add_result
           \<lparr>rr_id = 0, rr_schedule_id = schedule_id, rr_user_id = user_id,
            rr_material_id = rs_material_id found, rr_was_successful = was_successful,
            rr_completed_at = utcnow env\<rparr>
           (update_schedule (rs_id found)
              (\<lambda>r. r\<lparr>rs_is_completed := True, rs_completed_at := Some (utcnow env)\<rparr>) (db s))\<rparr>"
  define marked :: repetition_schedule
    where "marked = found\<lparr>rs_is_completed := True, rs_completed_at := Some (utcnow env)\<rparr>"
  have "statistics_unique (today env) user_id (db s2)"
    using stats by (simp add: s2_def statistics_unique_def add_result_def update_schedule_def)
  from update_user_statistics_unique [OF this, of 0 "if was_successful then 1 else 0"
      "if was_successful then 0 else 1"]
  obtain st n where u: "update_user_statistics env s2 user_id 0 (if was_successful then 1 else 0)
           (if was_successful then 0 else 1) =
         (Inr (), commit (s2\<lparr>db := (db s2)\<lparr>statistics := st, next_statistics_id := n\<rparr>\<rparr>))"
    by blast
  define d_mid :: database where "d_mid = (db s2)\<lparr>statistics := st, next_statistics_id := n\<rparr>"
  define s4 :: session where "s4 = s\<lparr>db := d_mid, committed := committed s @ [d_mid, d_mid]\<rparr>"
  have s4: "commit (commit (s2\<lparr>db := d_mid\<rparr>)) = s4"
    by (simp add: commit_def s4_def s2_def)
  have run: "complete_repetition env s schedule_id user_id was_successful =
       (if was_successful
        then (case create_next_repetition_on_success env s4 marked of
                (Inl e, s5) \<Rightarrow> (Inl e, s5) | (Inr nxt, s5) \<Rightarrow> (Inr True, s5))
        else (case mark_failed env s4 user_id (rs_material_id found) (Some (utcnow env)) of
                (Inl e, s5) \<Rightarrow> (Inl e, s5) | (Inr ok, s5) \<Rightarrow> (Inr True, s5)))"
    using complete_repetition_found [OF found s2_def marked_def u]
    unfolding d_mid_def [symmetric] s4 by simp
  show thesis
  proof (rule that)
    show "s4 = s\<lparr>db := d_mid, committed := committed s @ [d_mid, d_mid]\<rparr>" by (fact s4_def)
    show "d_mid = (add_result
           \<lparr>rr_id = 0, rr_schedule_id = schedule_id, rr_user_id = user_id,
            rr_material_id = rs_material_id found, rr_was_successful = was_successful,
            rr_completed_at = utcnow env\<rparr>
           (update_schedule (rs_id found)
              (\<lambda>r. r\<lparr>rs_is_completed := True, rs_completed_at := Some (utcnow env)\<rparr>) (db s)))
        \<lparr>statistics := st, next_statistics_id := n\<rparr>"
      by (simp add: d_mid_def s2_def)
    show "complete_repetition env s schedule_id user_id was_successful =
       (if was_successful
        then (case create_next_repetition_on_success env s4
                     (found\<lparr>rs_is_completed := True, rs_completed_at := Some (utcnow env)\<rparr>) of
                (Inl e, s5) \<Rightarrow> (Inl e, s5) | (Inr nxt, s5) \<Rightarrow> (Inr True, s5))
        else (case mark_failed env s4 user_id (rs_material_id found) (Some (utcnow env)) of
                (Inl e, s5) \<Rightarrow> (Inl e, s5) | (Inr ok, s5) \<Rightarrow> (Inr True, s5)))"
      using run unfolding marked_def .
  qed
qed

text \<open>
  Claim C4, as the code behaves. \<open>complete_repetition\<close> is not one transaction but two.
  For an incomplete entry of the caller (and at most one statistics row for the user
  and the day, without which the statistics lookup raises) it first commits, twice, a
  snapshot \<open>d_mid\<close> in which the entry is completed and its result is written, while the
  schedule table has the same rows otherwise and the materials are untouched: no
  follow-up entry, no stale entry deleted, no stage updated. The follow-up commits
  afterwards (\<open>rest\<close>), separately or not at all, and every later snapshot still
  holds the completed entry.
\<close>

theorem completion_is_committed_before_follow_up:
  assumes "filter (\<lambda>r. rs_id r = schedule_id \<and> rs_user_id r = user_id \<and>
                        \<not> rs_is_completed r) (repetition_schedules (db s)) = [found]"
    and "statistics_unique (today env) user_id (db s)"
  shows "\<exists>res s' d_mid rest.
     complete_repetition env s schedule_id user_id was_successful = (res, s') \<and>
     committed s' = committed s @ d_mid # d_mid # rest \<and>
     repetition_schedules d_mid =
       map (\<lambda>r. if rs_id r = schedule_id
                then r\<lparr>rs_is_completed := True, rs_completed_at := Some (utcnow env)\<rparr> else r)
           (repetition_schedules (db s)) \<and>
     repetition_results d_mid = repetition_results (db s) @
       [\<lparr>rr_id = next_result_id (db s), rr_schedule_id = schedule_id, rr_user_id = user_id,
         rr_material_id = rs_material_id found, rr_was_successful = was_successful,
         rr_completed_at = utcnow env\<rparr>] \<and>
     study_materials d_mid = study_materials (db s) \<and>
     (rest = [] \<or> rest = [db s'] \<or> rest = [db s', db s']) \<and>
     (\<forall>d \<in> set rest.
        found\<lparr>rs_is_completed := True, rs_completed_at := Some (utcnow env)\<rparr>
          \<in> set (repetition_schedules d))"
proof -
  let ?marked = "found\<lparr>rs_is_completed := True, rs_completed_at := Some (utcnow env)\<rparr>"
  have "found \<in> set (filter (\<lambda>r. rs_id r = schedule_id \<and> rs_user_id r = user_id \<and>
                        \<not> rs_is_completed r) (repetition_schedules (db s)))"
    unfolding assms(1) by simp
  then have mem: "found \<in> set (repetition_schedules (db s))" and id: "rs_id found = schedule_id"
    by simp_all
  show ?thesis
  proof (rule complete_repetition_halves [OF assms, of was_successful])
  fix st :: "user_statistics list" and n :: int and d_mid :: database and s4 :: session
  assume d_mid: "d_mid = (add_result
           \<lparr>rr_id = 0, rr_schedule_id = schedule_id, rr_user_id = user_id,
            rr_material_id = rs_material_id found, rr_was_successful = was_successful,
            rr_completed_at = utcnow env\<rparr>
           (update_schedule (rs_id found)
              (\<lambda>r. r\<lparr>rs_is_completed := True, rs_completed_at := Some (utcnow env)\<rparr>) (db s)))
        \<lparr>statistics := st, next_statistics_id := n\<rparr>"
    and s4: "s4 = s\<lparr>db := d_mid, committed := committed s @ [d_mid, d_mid]\<rparr>"
    and run: "complete_repetition env s schedule_id user_id was_successful =
       (if was_successful
        then (case create_next_repetition_on_success env s4 ?marked of
                (Inl e, s5) \<Rightarrow> (Inl e, s5) | (Inr nxt, s5) \<Rightarrow> (Inr True, s5))
        else (case mark_failed env s4 user_id (rs_material_id found) (Some (utcnow env)) of
                (Inl e, s5) \<Rightarrow> (Inl e, s5) | (Inr ok, s5) \<Rightarrow> (Inr True, s5)))"
  have rows: "repetition_schedules d_mid =
       map (\<lambda>r. if rs_id r = schedule_id
                then r\<lparr>rs_is_completed := True, rs_completed_at := Some (utcnow env)\<rparr> else r)
           (repetition_schedules (db s))"
    by (simp add: d_mid add_result_def update_schedule_def id)
  have results: "repetition_results d_mid = repetition_results (db s) @
       [\<lparr>rr_id = next_result_id (db s), rr_schedule_id = schedule_id, rr_user_id = user_id,
         rr_material_id = rs_material_id found, rr_was_successful = was_successful,
         rr_completed_at = utcnow env\<rparr>]"
    by (simp add: d_mid add_result_def update_schedule_def)
  have materials: "study_materials d_mid = study_materials (db s)"
    by (simp add: d_mid add_result_def update_schedule_def)
  have marked: "?marked \<in> set (repetition_schedules (db s4))"
  proof -
    have "(\<lambda>r. if rs_id r = schedule_id
                then r\<lparr>rs_is_completed := True, rs_completed_at := Some (utcnow env)\<rparr> else r) found
          \<in> (\<lambda>r. if rs_id r = schedule_id
                then r\<lparr>rs_is_completed := True, rs_completed_at := Some (utcnow env)\<rparr> else r)
              ` set (repetition_schedules (db s))"
      using mem by (rule imageI)
    then have "?marked \<in> set (repetition_schedules d_mid)"
      unfolding rows set_map using id by simp
    then show ?thesis by (simp add: s4)
  qed
  have log: "committed s4 = committed s @ [d_mid, d_mid]" by (simp add: s4)
  have "\<exists>res s5. complete_repetition env s schedule_id user_id was_successful = (res, s5) \<and>
          (committed s5 = committed s4 \<or> committed s5 = committed s4 @ [db s5] \<or>
           committed s5 = committed s4 @ [db s5, db s5]) \<and>
          ?marked \<in> set (repetition_schedules (db s5))"
  proof (cases was_successful)
    case True
    obtain r5 s5 where f: "create_next_repetition_on_success env s4 ?marked = (r5, s5)"
      by (cases "create_next_repetition_on_success env s4 ?marked")
    have "complete_repetition env s schedule_id user_id was_successful =
            (case r5 of Inl e \<Rightarrow> Inl e | Inr nxt \<Rightarrow> Inr True, s5)"
      using run True f by (simp split: sum.splits)
    moreover from create_next_on_success_shape [OF f]
    have "committed s5 = committed s4 \<or> committed s5 = committed s4 @ [db s5]" by blast
    moreover from create_next_on_success_keeps [OF f marked]
    have "?marked \<in> set (repetition_schedules (db s5))" by simp
    ultimately show ?thesis by blast
  next
    case False
    obtain r5 s5 where f: "mark_failed env s4 user_id (rs_material_id found)
        (Some (utcnow env)) = (r5, s5)"
      by (cases "mark_failed env s4 user_id (rs_material_id found) (Some (utcnow env))")
    have "complete_repetition env s schedule_id user_id was_successful =
            (case r5 of Inl e \<Rightarrow> Inl e | Inr ok \<Rightarrow> Inr True, s5)"
      using run False f by (simp split: sum.splits)
    moreover from mark_failed_shape [OF f]
    have "committed s5 = committed s4 \<or> committed s5 = committed s4 @ [db s5, db s5]" by blast
    moreover from mark_failed_keeps [OF f marked]
    have "?marked \<in> set (repetition_schedules (db s5))" by simp
    ultimately show ?thesis by blast
  qed
  then obtain res s5 where
    r: "complete_repetition env s schedule_id user_id was_successful = (res, s5)"
    and c: "committed s5 = committed s4 \<or> committed s5 = committed s4 @ [db s5] \<or>
           committed s5 = committed s4 @ [db s5, db s5]"
    and m: "?marked \<in> set (repetition_schedules (db s5))"
    by blast
  have "\<exists>rest. committed s5 = committed s @ d_mid # d_mid # rest \<and>
          (rest = [] \<or> rest = [db s5] \<or> rest = [db s5, db s5])"
  proof -
    from c consider "committed s5 = committed s4" | "committed s5 = committed s4 @ [db s5]"
      | "committed s5 = committed s4 @ [db s5, db s5]" by blast
    then show ?thesis
    proof cases
      case 1
      then have "committed s5 = committed s @ d_mid # d_mid # []" by (simp add: log)
      then show ?thesis by blast
    next
      case 2
      then have "committed s5 = committed s @ d_mid # d_mid # [db s5]" by (simp add: log)
      then show ?thesis by blast
    next
      case 3
      then have "committed s5 = committed s @ d_mid # d_mid # [db s5, db s5]" by (simp add: log)
      then show ?thesis by blast
    qed
  qed
  then obtain rest where rest: "committed s5 = committed s @ d_mid # d_mid # rest"
    and shape: "rest = [] \<or> rest = [db s5] \<or> rest = [db s5, db s5]"
    by blast
  from shape m have all: "\<forall>d \<in> set rest. ?marked \<in> set (repetition_schedules d)" by auto
  show ?thesis
    apply (rule exI [of _ res], rule exI [of _ s5], rule exI [of _ d_mid], rule exI [of _ rest])
    using r rest rows results materials shape all by simp
  qed
qed

lemma success_follow_up_raises:
  assumes "get_material s (rs_material_id cs) = Inr (Some material)"
    and "get_user s (rs_user_id cs) = Inr usr"
    and "calculate_next_repetition env (sm_created_at material) (rs_current_stage cs)
           (timezone_of env usr) (Some (utcnow env)) = Inr (due, n)"
    and "dt_tzinfo due \<noteq> None"
  shows "\<exists>s'. create_next_repetition_on_success env s cs = (Inl DataError, s') \<and>
              committed s' = committed s"
  using assms(4) unfolding create_next_repetition_on_success_def assms(1) assms(2)
  by (simp add: Let_def assms(3) storable_def new_schedule_row_def
      delete_incomplete_repetitions_def)

lemma review_store_simps:
  "repetition_schedules (db review_store) = [sched_row 1 10 7 739261 ''day_1'' 3 False]"
  "study_materials (db review_store) = [material_row 10 7 3]"
  "users (db review_store) =
     [\<lparr>us_user_id = 7, us_timezone = yekaterinburg, us_is_active = True\<rparr>]"
  "statistics (db review_store) = []"
  "repetition_results (db review_store) = []"
  "committed review_store = []"
  by (simp_all add: review_store_def store_with_def)

lemma review_store_found:
  "filter (\<lambda>r. rs_id r = 1 \<and> rs_user_id r = 7 \<and> \<not> rs_is_completed r)
     (repetition_schedules (db review_store)) = [sched_row 1 10 7 739261 ''day_1'' 3 False]"
  by (simp add: review_store_simps sched_row_def)

lemma review_store_statistics: "statistics_unique (today svc_fixture) 7 (db review_store)"
  by (simp add: no_statistics_unique review_store_simps)

lemma review_stage3:
  "calculate_next_repetition svc_fixture (naive_time 739252 10 0) 3 yekaterinburg
     (Some (utcnow svc_fixture)) = Inr (local_time 739255 7 0, 4)"
  by (simp add: calculate_next_repetition_def get_tz_def localize_def attach_tz_def
      svc_fixture_def naive_time_def local_time_def morning_after_def date_add_days_def
      datetime_combine_def timedelta_days_def MAXORDINAL_def Let_def)

text \<open>
  Claim C4 refuted: a successful completion of the one pending entry of the material 10
  (stage 3). The follow-up row is due at 07:00 in the user's zone, the flush of its
  commit raises, and the last state persisted has the entry completed and its result
  written, with no other schedule row and the material still at stage 3.
\<close>

theorem completion_persists_without_follow_up:
  "fst (complete_repetition svc_fixture review_store 1 7 True) = Inl DataError \<and>
   (\<exists>d. committed (snd (complete_repetition svc_fixture review_store 1 7 True)) = [d, d] \<and>
        map rs_is_completed (repetition_schedules d) = [True] \<and>
        length (repetition_results d) = 1 \<and>
        map sm_current_stage (study_materials d) = [3])"
proof (rule complete_repetition_halves [OF review_store_found review_store_statistics, of True])
  let ?found = "sched_row 1 10 7 739261 ''day_1'' 3 False"
  let ?marked = "?found\<lparr>rs_is_completed := True, rs_completed_at := Some (utcnow svc_fixture)\<rparr>"
  fix st :: "user_statistics list" and n :: int and d_mid :: database and s4 :: session
  assume d_mid: "d_mid = (add_result
           \<lparr>rr_id = 0, rr_schedule_id = 1, rr_user_id = 7,
            rr_material_id = rs_material_id ?found, rr_was_successful = True,
            rr_completed_at = utcnow svc_fixture\<rparr>
           (update_schedule (rs_id ?found)
              (\<lambda>r. r\<lparr>rs_is_completed := True, rs_completed_at := Some (utcnow svc_fixture)\<rparr>)
              (db review_store)))
        \<lparr>statistics := st, next_statistics_id := n\<rparr>"
    and s4: "s4 = review_store\<lparr>db := d_mid, committed := committed review_store @ [d_mid, d_mid]\<rparr>"
    and run: "complete_repetition svc_fixture review_store 1 7 True =
       (if True
        then (case create_next_repetition_on_success svc_fixture s4 ?marked of
                (Inl e, s5) \<Rightarrow> (Inl e, s5) | (Inr nxt, s5) \<Rightarrow> (Inr True, s5))
        else (case mark_failed svc_fixture s4 7 (rs_material_id ?found)
                     (Some (utcnow svc_fixture)) of
                (Inl e, s5) \<Rightarrow> (Inl e, s5) | (Inr ok, s5) \<Rightarrow> (Inr True, s5)))"
  have rows: "repetition_schedules d_mid = [?marked]"
    by (simp add: d_mid add_result_def update_schedule_def review_store_simps sched_row_def)
  have results: "length (repetition_results d_mid) = 1"
    by (simp add: d_mid add_result_def update_schedule_def review_store_simps)
  have materials: "study_materials d_mid = [material_row 10 7 3]"
    by (simp add: d_mid add_result_def update_schedule_def review_store_simps)
  have users: "users d_mid = [\<lparr>us_user_id = 7, us_timezone = yekaterinburg, us_is_active = True\<rparr>]"
    by (simp add: d_mid add_result_def update_schedule_def review_store_simps)
  have db4: "db s4 = d_mid" and log4: "committed s4 = [d_mid, d_mid]"
    by (simp_all add: s4 review_store_simps)
  have mat: "get_material s4 (rs_material_id ?marked) = Inr (Some (material_row 10 7 3))"
    by (simp add: get_material_def db4 materials sched_row_def material_row_def)
  have usr: "get_user s4 (rs_user_id ?marked) =
      Inr (Some \<lparr>us_user_id = 7, us_timezone = yekaterinburg, us_is_active = True\<rparr>)"
    by (simp add: get_user_def db4 users sched_row_def)
  have calc: "calculate_next_repetition svc_fixture (sm_created_at (material_row 10 7 3))
      (rs_current_stage ?marked)
      (timezone_of svc_fixture
         (Some \<lparr>us_user_id = 7, us_timezone = yekaterinburg, us_is_active = True\<rparr>))
      (Some (utcnow svc_fixture)) = Inr (local_time 739255 7 0, 4)"
    using review_stage3 by (simp add: material_row_def sched_row_def timezone_of_def)
  have aware: "dt_tzinfo (local_time 739255 7 0) \<noteq> None"
    by (simp add: local_time_def)
  from success_follow_up_raises [OF mat usr calc aware]
  obtain s5 where f: "create_next_repetition_on_success svc_fixture s4 ?marked =
      (Inl DataError, s5)" and c: "committed s5 = committed s4"
    by blast
  have "complete_repetition svc_fixture review_store 1 7 True = (Inl DataError, s5)"
    using run f by simp
  moreover have "map rs_is_completed (repetition_schedules d_mid) = [True]"
    by (simp add: rows)
  moreover have "map sm_current_stage (study_materials d_mid) = [3]"
    by (simp add: materials material_row_def)
  ultimately show ?thesis
    using c log4 results by simp
qed

text \<open>
  The same store when the repetition is reported failed: the first two snapshots of the
  log hold the completed entry, its result and the material as it was.
\<close>

theorem completion_is_committed_before_follow_up_witness:
  "\<exists>res s' d_mid rest.
     complete_repetition svc_fixture review_store 1 7 False = (res, s') \<and>
     committed s' = d_mid # d_mid # rest \<and>
     map rs_is_completed (repetition_schedules d_mid) = [True] \<and>
     length (repetition_results d_mid) = 1 \<and>
     study_materials d_mid = [material_row 10 7 3]"
proof -
  let ?found = "sched_row 1 10 7 739261 ''day_1'' 3 False"
  have "\<exists>res s' d_mid rest.
     complete_repetition svc_fixture review_store 1 7 False = (res, s') \<and>
     committed s' = committed review_store @ d_mid # d_mid # rest \<and>
     repetition_schedules d_mid =
       map (\<lambda>r. if rs_id r = 1
                then r\<lparr>rs_is_completed := True, rs_completed_at := Some (utcnow svc_fixture)\<rparr>
                else r)
           (repetition_schedules (db review_store)) \<and>
     repetition_results d_mid = repetition_results (db review_store) @
       [\<lparr>rr_id = next_result_id (db review_store), rr_schedule_id = 1, rr_user_id = 7,
         rr_material_id = rs_material_id ?found, rr_was_successful = False,
         rr_completed_at = utcnow svc_fixture\<rparr>] \<and>
     study_materials d_mid = study_materials (db review_store) \<and>
     (rest = [] \<or> rest = [db s'] \<or> rest = [db s', db s']) \<and>
     (\<forall>d \<in> set rest.
        ?found\<lparr>rs_is_completed := True, rs_completed_at := Some (utcnow svc_fixture)\<rparr>
          \<in> set (repetition_schedules d))"
    by (rule completion_is_committed_before_follow_up
          [OF review_store_found review_store_statistics])
  then obtain res s' d_mid rest where
    run: "complete_repetition svc_fixture review_store 1 7 False = (res, s')"
    and log: "committed s' = committed review_store @ d_mid # d_mid # rest"
    and rows: "repetition_schedules d_mid =
       map (\<lambda>r. if rs_id r = 1
                then r\<lparr>rs_is_completed := True, rs_completed_at := Some (utcnow svc_fixture)\<rparr>
                else r)
           (repetition_schedules (db review_store))"
    and results: "repetition_results d_mid = repetition_results (db review_store) @
       [\<lparr>rr_id = next_result_id (db review_store), rr_schedule_id = 1, rr_user_id = 7,
         rr_material_id = rs_material_id ?found, rr_was_successful = False,
         rr_completed_at = utcnow svc_fixture\<rparr>]"
    and materials: "study_materials d_mid = study_materials (db review_store)"
    by (elim exE conjE)
  have a: "committed s' = d_mid # d_mid # rest"
    using log by (simp add: review_store_simps)
  have b: "map rs_is_completed (repetition_schedules d_mid) = [True]"
    by (simp add: rows review_store_simps sched_row_def)
  have c: "length (repetition_results d_mid) = 1"
    by (simp add: results review_store_simps)
  have d: "study_materials d_mid = [material_row 10 7 3]"
    by (simp add: materials review_store_simps)
  show ?thesis
    apply (rule exI [of _ res], rule exI [of _ s'], rule exI [of _ d_mid], rule exI [of _ rest])
    using run a b c d by simp
qed

section \<open>The stage of the material and the stage of its entry\<close>

lemma morning_after_aware: "morning_after tz d k = Inr due \<Longrightarrow> dt_tzinfo due = Some tz"
  by (cases tz) (auto simp: morning_after_def attach_tz_def split: sum.splits)

lemma monthly_branch:
  assumes "7 \<le> stage"
  shows "calculate_next_repetition env created_at stage tzname ls =
     (case get_tz env tzname of
        Inl e \<Rightarrow> Inl e
      | Inr tz \<Rightarrow>
     (case localize env tz created_at of
        Inl e \<Rightarrow> Inl e
      | Inr created \<Rightarrow>
     (case (case ls of None \<Rightarrow> Inr created | Some l \<Rightarrow> localize env tz l) of
        Inl e \<Rightarrow> Inl e
      | Inr base_date \<Rightarrow>
     (case morning_after tz base_date 30 of
        Inl e \<Rightarrow> Inl e
      | Inr due \<Rightarrow> Inr (due, 8)))))"
  using assms unfolding calculate_next_repetition_def
  by (simp cong: sum.case_cong)

lemma monthly_result:
  assumes "calculate_next_repetition env created_at stage tzname ls = Inr (due, ns)"
    and "7 \<le> stage"
  shows "ns = 8" and "dt_tzinfo due \<noteq> None"
proof -
  from assms(1) have "ns = 8 \<and> (\<exists>tz b. morning_after tz b 30 = Inr due)"
    unfolding monthly_branch [OF assms(2)]
    by (simp split: sum.splits) blast
  then show "ns = 8" and "dt_tzinfo due \<noteq> None"
    using morning_after_aware by auto
qed

lemma scalar_Some: "scalar_one_or_none xs = Inr (Some x) \<Longrightarrow> xs = [x]"
  by (cases xs rule: scalar_one_or_none.cases) simp_all

lemma get_material_found:
  assumes "get_material s i = Inr (Some m)"
  shows "filter (\<lambda>m. sm_id m = i) (study_materials (db s)) = [m]" and "sm_id m = i"
proof -
  show f: "filter (\<lambda>m. sm_id m = i) (study_materials (db s)) = [m]"
    using assms unfolding get_material_def by (rule scalar_Some)
  have "m \<in> set (filter (\<lambda>m. sm_id m = i) (study_materials (db s)))" unfolding f by simp
  then show "sm_id m = i" by simp
qed

lemma get_material_updated:
  assumes "get_material s i = Inr (Some m)"
    and "study_materials (db s') =
           map (\<lambda>x. if sm_id x = i then f x else x) (study_materials (db s))"
    and "\<And>x. sm_id (f x) = sm_id x"
  shows "get_material s' i = Inr (Some (f m))"
proof -
  have "filter (\<lambda>m. sm_id m = i) (study_materials (db s')) =
        map (\<lambda>x. if sm_id x = i then f x else x)
          (filter (\<lambda>m. sm_id m = i) (study_materials (db s)))"
    unfolding assms(2) by (rule filter_map_same) (simp add: assms(3))
  then show ?thesis
    using get_material_found [OF assms(1)] by (simp add: get_material_def)
qed

lemma pending_after_replace:
  assumes "rs_user_id row = u" and "rs_material_id row = m" and "\<not> rs_is_completed row"
    and "repetition_schedules d =
           filter (\<lambda>r. \<not> (rs_user_id r = u \<and> rs_material_id r = m \<and> \<not> rs_is_completed r)) xs
           @ [row]"
  shows "pending_entries d u m = [row]"
proof -
  have "filter (\<lambda>r. rs_user_id r = u \<and> rs_material_id r = m \<and> \<not> rs_is_completed r)
          (filter (\<lambda>r. \<not> (rs_user_id r = u \<and> rs_material_id r = m \<and> \<not> rs_is_completed r)) xs)
        = []"
    by (auto simp: filter_empty_conv)
  then show ?thesis
    unfolding pending_entries_def assms(4) using assms(1-3) by simp
qed

text \<open>
  The transaction \<open>_create_next_repetition_on_success\<close> has built when its commit raises:
  the material updated, the stale entries deleted, the new row added.
\<close>

lemma success_follow_up_state:
  assumes "get_material s (rs_material_id cs) = Inr (Some material)"
    and "get_user s (rs_user_id cs) = Inr usr"
    and "calculate_next_repetition env (sm_created_at material) (rs_current_stage cs)
           (timezone_of env usr) (Some (utcnow env)) = Inr (due, n)"
    and "dt_tzinfo due \<noteq> None"
  obtains s' where
    "create_next_repetition_on_success env s cs = (Inl DataError, s')"
    "committed s' = committed s"
    "study_materials (db s') =
       map (\<lambda>m. if sm_id m = rs_material_id cs
                then m\<lparr>sm_last_success_at := Some (utcnow env),
                       sm_current_stage := rs_current_stage cs + 1\<rparr>
                else m) (study_materials (db s))"
    "repetition_schedules (db s') =
       filter (\<lambda>r. \<not> (rs_user_id r = rs_user_id cs \<and> rs_material_id r = rs_material_id cs \<and>
                        \<not> rs_is_completed r)) (repetition_schedules (db s)) @
       [(new_schedule_row env (rs_material_id cs) (rs_user_id cs) (dt_date due)
           (get_stage_name n) n due)\<lparr>rs_id := next_schedule_id (db s)\<rparr>]"
proof -
  obtain r s' where run: "create_next_repetition_on_success env s cs = (r, s')"
    by (cases "create_next_repetition_on_success env s cs")
  note id = get_material_found(2) [OF assms(1)]
  from run assms(4) have all: "r = Inl DataError \<and> committed s' = committed s \<and>
    study_materials (db s') =
       map (\<lambda>m. if sm_id m = rs_material_id cs
                then m\<lparr>sm_last_success_at := Some (utcnow env),
                       sm_current_stage := rs_current_stage cs + 1\<rparr>
                else m) (study_materials (db s)) \<and>
    repetition_schedules (db s') =
       filter (\<lambda>r. \<not> (rs_user_id r = rs_user_id cs \<and> rs_material_id r = rs_material_id cs \<and>
                        \<not> rs_is_completed r)) (repetition_schedules (db s)) @
       [(new_schedule_row env (rs_material_id cs) (rs_user_id cs) (dt_date due)
           (get_stage_name n) n due)\<lparr>rs_id := next_schedule_id (db s)\<rparr>]"
    unfolding create_next_repetition_on_success_def assms(1) assms(2)
    by (auto simp: Let_def assms(3) storable_def new_schedule_row_def id
        delete_incomplete_repetitions_def add_schedule_def update_material_def)
  show thesis
  proof (rule that [of s'])
    show "create_next_repetition_on_success env s cs = (Inl DataError, s')"
      using run all by simp
  qed (simp_all only: all)
qed

text \<open>
  Claim C5, as the code behaves in the monthly phase. When the entry completed has a
  stage \<open>s \<ge> 8\<close>, \<open>_create_next_repetition_on_success\<close> gives the material the stage
  \<open>s + 1\<close> and the new entry, the only incomplete one of the material, the stage 8: the
  two disagree. The call then raises at its commit (the new row is due at a time with
  a zone), so that nothing of it is persisted.
\<close>

theorem monthly_success_splits_stages:
  assumes "get_material s (rs_material_id cs) = Inr (Some material)"
    and "get_user s (rs_user_id cs) = Inr usr"
    and "calculate_next_repetition env (sm_created_at material) (rs_current_stage cs)
           (timezone_of env usr) (Some (utcnow env)) = Inr (due, n)"
    and "8 \<le> rs_current_stage cs"
  shows "\<exists>s' m' row.
     create_next_repetition_on_success env s cs = (Inl DataError, s') \<and>
     committed s' = committed s \<and>
     get_material s' (rs_material_id cs) = Inr (Some m') \<and>
     sm_current_stage m' = rs_current_stage cs + 1 \<and>
     pending_entries (db s') (rs_user_id cs) (rs_material_id cs) = [row] \<and>
     rs_current_stage row = 8"
proof -
  have stage: "7 \<le> rs_current_stage cs" using assms(4) by simp
  note n = monthly_result(1) [OF assms(3) stage]
  note aware = monthly_result(2) [OF assms(3) stage]
  show ?thesis
  proof (rule success_follow_up_state [OF assms(1-3) aware])
    fix s' :: session
    let ?f = "\<lambda>m. m\<lparr>sm_last_success_at := Some (utcnow env),
                     sm_current_stage := rs_current_stage cs + 1\<rparr>"
    let ?row = "(new_schedule_row env (rs_material_id cs) (rs_user_id cs) (dt_date due)
           (get_stage_name n) n due)\<lparr>rs_id := next_schedule_id (db s)\<rparr>"
    assume run: "create_next_repetition_on_success env s cs = (Inl DataError, s')"
      and log: "committed s' = committed s"
      and materials: "study_materials (db s') =
        map (\<lambda>m. if sm_id m = rs_material_id cs then ?f m else m) (study_materials (db s))"
      and rows: "repetition_schedules (db s') =
        filter (\<lambda>r. \<not> (rs_user_id r = rs_user_id cs \<and> rs_material_id r = rs_material_id cs \<and>
                        \<not> rs_is_completed r)) (repetition_schedules (db s)) @ [?row]"
    have m: "get_material s' (rs_material_id cs) = Inr (Some (?f material))"
      by (rule get_material_updated [OF assms(1) materials]) simp
    have p: "pending_entries (db s') (rs_user_id cs) (rs_material_id cs) = [?row]"
      by (rule pending_after_replace [OF _ _ _ rows]) (simp_all add: new_schedule_row_def)
    have st: "rs_current_stage ?row = 8" by (simp add: new_schedule_row_def n)
    show ?thesis
      apply (rule exI [of _ s'], rule exI [of _ "?f material"], rule exI [of _ ?row])
      using run log m p st by simp
  qed
qed

lemma monthly_store_simps:
  "repetition_schedules (db monthly_store) = [sched_row 1 10 7 739261 ''monthly'' 8 True]"
  "study_materials (db monthly_store) = [material_row 10 7 8]"
  "users (db monthly_store) =
     [\<lparr>us_user_id = 7, us_timezone = yekaterinburg, us_is_active = True\<rparr>]"
  "committed monthly_store = []"
  by (simp_all add: monthly_store_def store_with_def)

lemma monthly_stage8:
  "calculate_next_repetition svc_fixture (naive_time 739252 10 0) 8 yekaterinburg
     (Some (utcnow svc_fixture)) = Inr (local_time 739291 7 0, 8)"
  by (simp add: calculate_next_repetition_def get_tz_def localize_def attach_tz_def
      svc_fixture_def naive_time_def local_time_def morning_after_def date_add_days_def
      datetime_combine_def timedelta_days_def MAXORDINAL_def Let_def)

text \<open>
  The material 10 after the success of its entry of stage 8: stage 9 for the material,
  stage 8 for its one pending entry, and an empty commit log.
\<close>

theorem monthly_success_splits_stages_witness:
  "\<exists>s' m' row.
     create_next_repetition_on_success svc_fixture monthly_store
         (sched_row 1 10 7 739261 ''monthly'' 8 True) = (Inl DataError, s') \<and>
     committed s' = [] \<and>
     get_material s' 10 = Inr (Some m') \<and> sm_current_stage m' = 9 \<and>
     pending_entries (db s') 7 10 = [row] \<and> rs_current_stage row = 8"
proof -
  let ?cs = "sched_row 1 10 7 739261 ''monthly'' 8 True"
  let ?usr = "Some \<lparr>us_user_id = 7, us_timezone = yekaterinburg, us_is_active = True\<rparr>"
  have cs: "rs_material_id ?cs = 10" "rs_user_id ?cs = 7" "rs_current_stage ?cs = 8"
    by (simp_all add: sched_row_def)
  have mat: "get_material monthly_store (rs_material_id ?cs) = Inr (Some (material_row 10 7 8))"
    by (simp add: cs get_material_def monthly_store_simps material_row_def)
  have usr: "get_user monthly_store (rs_user_id ?cs) = Inr ?usr"
    by (simp add: cs get_user_def monthly_store_simps)
  have calc: "calculate_next_repetition svc_fixture (sm_created_at (material_row 10 7 8))
      (rs_current_stage ?cs) (timezone_of svc_fixture ?usr) (Some (utcnow svc_fixture)) =
      Inr (local_time 739291 7 0, 8)"
    using monthly_stage8 by (simp add: cs material_row_def timezone_of_def)
  have stage: "8 \<le> rs_current_stage ?cs" by (simp add: cs)
  from monthly_success_splits_stages [OF mat usr calc stage]
  show ?thesis by (simp add: cs monthly_store_simps)
qed

end
